theory Spec2Isabelle
  imports Main
begin

section \<open>JavaScript strings\<close>

text \<open>
  A JavaScript string is a sequence of UTF-16 code units; \<open>length\<close>, \<open>substring\<close>,
  \<open>split\<close> and \<open>trim\<close> all count and compare code units. A string is therefore
  modelled as the list of its code units. \<open>str\<close> embeds an ASCII literal.
\<close>

type_synonym js_string = "nat list"

definition str :: "string \<Rightarrow> js_string" where
  "str cs = map of_char cs"

text \<open>
  \<open>String.prototype.trim\<close> removes the ECMAScript WhiteSpace and LineTerminator code
  units from both ends: TAB, LF, VT, FF, CR, SP, NBSP, U+1680, U+2000..U+200A, U+2028,
  U+2029, U+202F, U+205F, U+3000 and U+FEFF.
\<close>

definition is_white_space :: "nat \<Rightarrow> bool" where
  "is_white_space c \<longleftrightarrow>
     c = 9 \<or> c = 10 \<or> c = 11 \<or> c = 12 \<or> c = 13 \<or> c = 32 \<or> c = 160 \<or> c = 5760 \<or>
     (8192 \<le> c \<and> c \<le> 8202) \<or> c = 8232 \<or> c = 8233 \<or> c = 8239 \<or> c = 8287 \<or>
     c = 12288 \<or> c = 65279"

definition trim :: "js_string \<Rightarrow> js_string" where
  "trim s = rev (dropWhile is_white_space (rev (dropWhile is_white_space s)))"

text \<open>\<open>s.split(sep)\<close> for a separator of one code unit; the result is never empty.\<close>

fun split :: "nat \<Rightarrow> js_string \<Rightarrow> js_string list" where
  "split sep [] = [[]]"
| "split sep (c # cs) =
     (if c = sep then [] # split sep cs
      else (case split sep cs of
              [] \<Rightarrow> [[c]]
            | l # ls \<Rightarrow> (c # l) # ls))"

fun join :: "js_string \<Rightarrow> js_string list \<Rightarrow> js_string" where
  "join sep [] = []"
| "join sep [x] = x"
| "join sep (x # y # ys) = x @ sep @ join sep (y # ys)"

definition startsWith :: "js_string \<Rightarrow> js_string \<Rightarrow> bool" where
  "startsWith s p \<longleftrightarrow> take (length p) s = p"

text \<open>\<open>s.replace(/c/g, r)\<close> for a pattern that is one literal code unit.\<close>

definition replace_all :: "nat \<Rightarrow> js_string \<Rightarrow> js_string \<Rightarrow> js_string" where
  "replace_all c r s = concat (map (\<lambda>d. if d = c then r else [d]) s)"

text \<open>\<open>s.replace(/c$/, '')\<close>: without the \<open>m\<close> flag, \<open>$\<close> matches at the end of input only.\<close>

definition remove_final :: "nat \<Rightarrow> js_string \<Rightarrow> js_string" where
  "remove_final c s = (if s \<noteq> [] \<and> last s = c then butlast s else s)"

text \<open>
  \<open>s.substring(a, b)\<close>: both indices are clamped to the length and swapped when
  \<open>a > b\<close>; it never throws.
\<close>

definition substring :: "nat \<Rightarrow> nat \<Rightarrow> js_string \<Rightarrow> js_string" where
  "substring a b s =
     (let a' = min a (length s); b' = min b (length s);
          lo = min a' b'; hi = max a' b'
      in take (hi - lo) (drop lo s))"

text \<open>\<open>s.padStart(n, pad)\<close>.\<close>

definition padStart :: "nat \<Rightarrow> js_string \<Rightarrow> js_string \<Rightarrow> js_string" where
  "padStart n pad s =
     (if n \<le> length s \<or> pad = [] then s
      else take (n - length s) (concat (replicate (n - length s) pad)) @ s)"

text \<open>\<open>String(n)\<close> for an integral Number: its decimal digits, with a minus sign.\<close>

fun digits :: "nat \<Rightarrow> js_string" where
  "digits n = (if n < 10 then [48 + n] else digits (n div 10) @ [48 + n mod 10])"

declare digits.simps [simp del]

definition String_nat :: "nat \<Rightarrow> js_string" where
  "String_nat n = digits n"

definition String_int :: "int \<Rightarrow> js_string" where
  "String_int i = (if i < 0 then 45 # digits (nat (- i)) else digits (nat i))"

text \<open>\<open>a || b\<close> on strings: the empty string is falsy, and so is \<open>undefined\<close>.\<close>

definition or_else :: "js_string \<Rightarrow> js_string \<Rightarrow> js_string" where
  "or_else a b = (if a \<noteq> [] then a else b)"

definition truthy :: "js_string option \<Rightarrow> bool" where
  "truthy v \<longleftrightarrow> (case v of None \<Rightarrow> False | Some s \<Rightarrow> s \<noteq> [])"

text \<open>A value that may be \<open>undefined\<close>, interpolated into a template literal.\<close>

definition interpolate :: "js_string option \<Rightarrow> js_string" where
  "interpolate v = (case v of None \<Rightarrow> str ''undefined'' | Some s \<Rightarrow> s)"

section \<open>The host: everything the action reads from outside\<close>

text \<open>An \<open>Error\<close> object, as far as the action looks at it: \<open>message\<close> and \<open>stack\<close>.\<close>

datatype js_error = JsError (message: js_string) (stack: js_string)

text \<open>The UTC getters of the \<open>Date\<close> returned by \<open>new Date()\<close>.\<close>

record date =
  utcFullYear :: int
  utcMonth :: nat
  utcDate :: nat
  utcHours :: nat
  utcMinutes :: nat
  utcSeconds :: nat

text \<open>
  What happens to a child process: either it cannot be located or started, or it runs
  to an exit, having written chunks to its standard output and standard error.
\<close>

datatype proc_outcome =
    Not_started js_error
  | Exited "js_string list" "js_string list" int

datatype fs_entry = Readable js_string | Unreadable js_error

text \<open>
  The host is read, never written:
  \<^item> \<open>inputs\<close> holds the raw string configured for each input name, as the workflow
    passes it to the step;
  \<^item> \<open>clock\<close> is the \<open>Date\<close> of the run, \<open>environ\<close> is \<open>process.env\<close>, \<open>fs\<close> the
    files the action may look at, \<open>process\<close> what each command line does when started;
  \<^item> \<open>exit_error\<close> is the \<open>Error\<close> with which \<open>exec.exec\<close> rejects after a non-zero
    exit, \<open>missing_file_error\<close> the one \<open>readFileSync\<close> throws for a missing path,
    \<open>type_error\<close> the \<open>TypeError\<close> of the engine for a method call on \<open>undefined\<close>;
  \<^item> the \<open>os_\<close> fields are the results of the \<open>os\<close> module; the two memory figures
    are taken as already formatted by \<open>toFixed(2)\<close>, since floating point is not
    modelled.
\<close>

record host =
  inputs :: "js_string \<rightharpoonup> js_string"
  clock :: date
  environ :: "js_string \<rightharpoonup> js_string"
  fs :: "js_string \<rightharpoonup> fs_entry"
  process :: "js_string \<Rightarrow> js_string list \<Rightarrow> proc_outcome"
  exit_error :: "js_string \<Rightarrow> js_string list \<Rightarrow> int \<Rightarrow> js_error"
  missing_file_error :: "js_string \<Rightarrow> js_error"
  type_error :: js_error
  os_type :: js_string
  os_release :: js_string
  os_version :: js_string
  os_arch :: js_string
  os_hostname :: js_string
  total_memory_gb :: js_string
  free_memory_gb :: js_string

section \<open>Effects\<close>

text \<open>
  The action never reads back what it has written, so a run is the list of its visible
  effects, in order: the log (groups, lines, warnings), the outputs and the failure mark
  set through the toolkit, every child process it tries to start, and what the toolkit
  copies from a child to the action's own output.
\<close>

datatype event =
    StartGroup js_string
  | EndGroup
  | ConsoleLog js_string
  | Warning js_string
  | SetOutput js_string js_string
  | SetFailed js_string
  | Spawn js_string "js_string list"
  | EchoCommand js_string "js_string list"
  | EchoOutput js_string

text \<open>
  A computation emits events and then either throws (\<open>Inl\<close>) or returns (\<open>Inr\<close>);
  \<open>await\<close> on a rejected promise throws.
\<close>

type_synonym 'a action = "event list \<times> (js_error + 'a)"

definition return :: "'a \<Rightarrow> 'a action" where
  "return x = ([], Inr x)"

definition throw :: "js_error \<Rightarrow> 'a action" where
  "throw e = ([], Inl e)"

definition emit :: "event list \<Rightarrow> unit action" where
  "emit es = (es, Inr ())"

definition bind :: "'a action \<Rightarrow> ('a \<Rightarrow> 'b action) \<Rightarrow> 'b action" where
  "bind m f =
     (case m of
        (es, Inl e) \<Rightarrow> (es, Inl e)
      | (es, Inr x) \<Rightarrow> (case f x of (es', r) \<Rightarrow> (es @ es', r)))"

definition seq :: "unit action \<Rightarrow> 'b action \<Rightarrow> 'b action" where
  "seq m k = bind m (\<lambda>_. k)"

definition try_catch :: "'a action \<Rightarrow> (js_error \<Rightarrow> 'a action) \<Rightarrow> 'a action" where
  "try_catch m handler =
     (case m of
        (es, Inl e) \<Rightarrow> (case handler e of (es', r) \<Rightarrow> (es @ es', r))
      | (es, Inr x) \<Rightarrow> (es, Inr x))"

fun map_action :: "('a \<Rightarrow> 'b action) \<Rightarrow> 'a list \<Rightarrow> 'b list action" where
  "map_action f [] = return []"
| "map_action f (x # xs) = bind (f x) (\<lambda>y. bind (map_action f xs) (\<lambda>ys. return (y # ys)))"

definition console_log :: "js_string \<Rightarrow> unit action" where
  "console_log s = emit [ConsoleLog s]"

section \<open>The toolkit's getInput\<close>

text \<open>
  \<open>core.getInput\<close> belongs to the toolkit package \<open>@actions/core\<close>. By its documented
  contract it returns the configured value of the input, or the empty string when the
  input is not set, and, since the action passes no \<open>trimWhitespace: false\<close>, with
  leading and trailing white space removed.
\<close>

definition raw_input :: "host \<Rightarrow> js_string \<Rightarrow> js_string" where
  "raw_input h name = (case inputs h name of None \<Rightarrow> [] | Some v \<Rightarrow> v)"

definition getInput :: "host \<Rightarrow> js_string \<Rightarrow> js_string" where
  "getInput h name = trim (raw_input h name)"

section \<open>The toolkit's exec\<close>

text \<open>
  \<open>exec.exec\<close> belongs to the toolkit package \<open>@actions/exec\<close>, a dependency of the
  action. It is modelled by its documented contract, as far as the action uses it:
  \<^item> the returned promise rejects when the tool cannot be located or started;
  \<^item> it rejects when the tool exits with a non-zero code, unless \<open>ignoreReturnCode\<close>
    is set, in which case it resolves with the exit code;
  \<^item> unless \<open>silent\<close> is set, the command line and the child's output are copied to
    the action's own output;
  \<^item> the \<open>stdout\<close> and \<open>stderr\<close> listeners receive every chunk the child writes.
  The model returns the chunks handed to the listeners together with the exit code. The
  order in which the two streams are copied is not modelled: standard output comes first.

  The action is written against this contract: \<open>getCommandOutput\<close> sets
  \<open>ignoreReturnCode\<close> "to handle errors manually" and \<open>silent\<close> "not to print to the
  console", and the tree probe wraps its calls in \<open>try\<close>/\<open>catch\<close> for the rejection
  that remains possible.
\<close>

record exec_options =
  silent :: bool
  ignoreReturnCode :: bool

definition default_options :: exec_options where
  "default_options = \<lparr>silent = False, ignoreReturnCode = False\<rparr>"

definition exec_exec ::
  "host \<Rightarrow> js_string \<Rightarrow> js_string list \<Rightarrow> exec_options
     \<Rightarrow> (js_string list \<times> js_string list \<times> int) action" where
  "exec_exec h command args options =
     (case process h command args of
        Not_started e \<Rightarrow> ([Spawn command args], Inl e)
      | Exited outs errs code \<Rightarrow>
          (Spawn command args #
             (if silent options then []
              else EchoCommand command args # map EchoOutput (outs @ errs)),
           if code \<noteq> 0 \<and> \<not> ignoreReturnCode options
           then Inl (exit_error h command args code)
           else Inr (outs, errs, code)))"

section \<open>The action\<close>

record CommandResult =
  stdout :: js_string
  stderr :: js_string
  exitCode :: int

text \<open>
  \<open>getCommandOutput\<close>: the listeners append each chunk to \<open>output\<close> and \<open>error\<close>;
  the \<open>if\<close> on the exit code has an empty body.
\<close>

definition getCommandOutput :: "host \<Rightarrow> js_string \<Rightarrow> js_string list \<Rightarrow> CommandResult action" where
  "getCommandOutput h command args =
     bind (exec_exec h command args \<lparr>silent = True, ignoreReturnCode = True\<rparr>)
       (\<lambda>(outs, errs, code).
          let output = foldl (@) [] outs;
              error = foldl (@) [] errs
          in return \<lparr>stdout = trim output, stderr = trim error, exitCode = code\<rparr>)"

definition arrow :: js_string where
  "arrow = [9654]"

definition default_indent :: js_string where
  "default_indent = str ''    '' @ arrow @ str '' ''"

definition formatBlock :: "js_string \<Rightarrow> js_string \<Rightarrow> js_string" where
  "formatBlock text indent = join [10] (map (\<lambda>line. indent @ line) (split 10 text))"

subsection \<open>Stage 1: timestamp\<close>

definition pad2 :: "nat \<Rightarrow> js_string" where
  "pad2 n = padStart 2 (str ''0'') (String_nat n)"

definition timestamp :: "date \<Rightarrow> js_string" where
  "timestamp d =
     String_int (utcFullYear d) @ str ''-'' @ pad2 (utcMonth d + 1) @ str ''-'' @
     pad2 (utcDate d) @ str '' '' @ pad2 (utcHours d) @ str '':'' @
     pad2 (utcMinutes d) @ str '':'' @ pad2 (utcSeconds d) @ str '' UTC''"

definition generate_timestamp :: "host \<Rightarrow> js_string action" where
  "generate_timestamp h =
     (let ts = timestamp (clock h) in
      seq (emit [StartGroup ([55357, 56658] @ str '' Generating Timestamp''),
                 SetOutput (str ''formatted_run_timestamp'') ts,
                 ConsoleLog (str ''Generated Timestamp: '' @ ts),
                 EndGroup])
          (return ts))"

subsection \<open>Stage 2: operating system details\<close>

definition existsSync :: "host \<Rightarrow> js_string \<Rightarrow> bool" where
  "existsSync h path \<longleftrightarrow> fs h path \<noteq> None"

definition readFileSync :: "host \<Rightarrow> js_string \<Rightarrow> js_string action" where
  "readFileSync h path =
     (case fs h path of
        Some (Readable content) \<Rightarrow> return content
      | Some (Unreadable e) \<Rightarrow> throw e
      | None \<Rightarrow> throw (missing_file_error h path))"

text \<open>
  \<open>line.split('=')[1].replace(/"/g, '')\<close>: when the line has no \<open>=\<close>, element 1 is
  \<open>undefined\<close> and the call of \<open>replace\<close> throws a TypeError.
\<close>

definition field_value :: "host \<Rightarrow> js_string \<Rightarrow> js_string action" where
  "field_value h line =
     (case split 61 line of
        _ # v # _ \<Rightarrow> return (replace_all 34 [] v)
      | _ \<Rightarrow> throw (type_error h))"

definition distro_from_os_release :: "host \<Rightarrow> js_string \<Rightarrow> js_string action" where
  "distro_from_os_release h osRelease =
     bind (map_action (field_value h)
             (filter (\<lambda>line. startsWith line (str ''PRETTY_NAME='')) (split 10 osRelease)))
       (\<lambda>pretty.
          let distroInfo = join (str '', '') pretty in
          if distroInfo = [] then
            bind (map_action (field_value h)
                    (filter (\<lambda>line. startsWith line (str ''NAME='') \<or>
                                     startsWith line (str ''VERSION=''))
                       (split 10 osRelease)))
              (\<lambda>fields. return (join (str '' '') fields))
          else return distroInfo)"

definition linux_distro :: "host \<Rightarrow> unit action" where
  "linux_distro h =
     bind (if existsSync h (str ''/etc/os-release'') then
             bind (readFileSync h (str ''/etc/os-release'')) (distro_from_os_release h)
           else
             bind (getCommandOutput h (str ''lsb_release'') [str ''-a''])
               (\<lambda>lsb. return (if exitCode lsb = 0 \<and> stdout lsb \<noteq> []
                               then [10] @ formatBlock (stdout lsb) default_indent
                               else str ''N/A'')))
       (\<lambda>distroInfo. console_log (str ''  DISTRO INFO:    '' @ distroInfo))"

definition macos_version :: "host \<Rightarrow> unit action" where
  "macos_version h =
     bind (getCommandOutput h (str ''sw_vers'') [])
       (\<lambda>swVers. if exitCode swVers = 0 \<and> stdout swVers \<noteq> []
                  then console_log (formatBlock (stdout swVers)
                                     (str ''  MACOS VERSION:'' @ [10] @ default_indent))
                  else return ())"

definition windows_details :: "host \<Rightarrow> unit action" where
  "windows_details h =
     bind (getCommandOutput h (str ''powershell'')
             [str ''-Command'',
              str ''Get-ComputerInfo | Select-Object OsName, OsVersion, OsArchitecture, CsManufacturer, CsModel | Format-List''])
       (\<lambda>psInfo. if exitCode psInfo = 0 \<and> stdout psInfo \<noteq> []
                  then console_log (formatBlock (stdout psInfo)
                                     (str ''  WINDOWS DETAILS:'' @ [10] @ default_indent))
                  else return ())"

definition runner_os :: "host \<Rightarrow> js_string option" where
  "runner_os h = environ h (str ''RUNNER_OS'')"

definition rule40 :: js_string where
  "rule40 = str ''========================================''"

definition platform_inspector :: "host \<Rightarrow> js_string \<Rightarrow> unit action" where
  "platform_inspector h ts =
     seq (emit [StartGroup ([55357, 56741, 65039] @ str '' Operating System Details''),
                ConsoleLog rule40,
                ConsoleLog (str ''  ACTION TIME:    '' @ ts),
                ConsoleLog (str ''  KERNEL INFO:    '' @ os_type h @ str '' '' @ os_release h @
                            str '' '' @ os_version h),
                ConsoleLog (str ''  ARCHITECTURE:   '' @ os_arch h),
                ConsoleLog (str ''  RUNNER OS:      '' @ interpolate (runner_os h)),
                ConsoleLog (str ''  HOSTNAME:       '' @ os_hostname h),
                ConsoleLog (str ''  TOTAL MEMORY:   '' @ total_memory_gb h @ str '' GB''),
                ConsoleLog (str ''  FREE MEMORY:    '' @ free_memory_gb h @ str '' GB'')])
    (seq (if runner_os h = Some (str ''Linux'') then linux_distro h
          else if runner_os h = Some (str ''macOS'') then macos_version h
          else if runner_os h = Some (str ''Windows'') then windows_details h
          else return ())
         (emit [ConsoleLog rule40, EndGroup]))"

subsection \<open>Stage 3: git repository details\<close>

text \<open>\<open>process.env.X || fallback\<close>, where the fallback is itself a computation.\<close>

definition env_or :: "js_string option \<Rightarrow> js_string action \<Rightarrow> js_string action" where
  "env_or v fallback = (if truthy v then return (the v) else fallback)"

definition stdout_of :: "host \<Rightarrow> js_string \<Rightarrow> js_string list \<Rightarrow> js_string action" where
  "stdout_of h command args = bind (getCommandOutput h command args) (\<lambda>r. return (stdout r))"

definition safe_directory :: "host \<Rightarrow> js_string option \<Rightarrow> unit action" where
  "safe_directory h workspace =
     (if truthy workspace then
        bind (exec_exec h (str ''git'')
                [str ''config'', str ''--global'', str ''--add'', str ''safe.directory'',
                 the workspace] default_options)
          (\<lambda>_. console_log ([9989] @ str '' Added '' @ the workspace @
                              str '' to git safe.directory''))
      else emit [Warning (str ''GITHUB_WORKSPACE not set. Skipping git safe.directory configuration.'')])"

definition branch_name :: "host \<Rightarrow> js_string action" where
  "branch_name h =
     env_or (environ h (str ''GITHUB_REF_NAME''))
       (stdout_of h (str ''git'') [str ''rev-parse'', str ''--abbrev-ref'', str ''HEAD''])"

definition commit_sha :: "host \<Rightarrow> js_string action" where
  "commit_sha h =
     env_or (environ h (str ''GITHUB_SHA''))
       (stdout_of h (str ''git'') [str ''rev-parse'', str ''HEAD''])"

definition short_sha :: "js_string \<Rightarrow> js_string" where
  "short_sha commitSha = substring 0 7 commitSha"

definition repository_inspector :: "host \<Rightarrow> js_string option \<Rightarrow> unit action" where
  "repository_inspector h workspace =
     seq (emit [StartGroup ([55356, 57139] @ str '' Git Repository Details'')])
    (seq (safe_directory h workspace)
    (seq (emit [ConsoleLog rule40,
                ConsoleLog (str ''  REPOSITORY:       '' @
                            interpolate (environ h (str ''GITHUB_REPOSITORY'')))])
    (bind (branch_name h) (\<lambda>branchName.
     seq (console_log (str ''  BRANCH:           '' @ branchName))
    (bind (commit_sha h) (\<lambda>commitSha.
     seq (emit [ConsoleLog (str ''  COMMIT SHA:       '' @ commitSha),
                ConsoleLog (str ''  SHORT SHA:        '' @ short_sha commitSha)])
    (bind (stdout_of h (str ''git'')
             [str ''log'', str ''-1'', str ''--pretty=format:%an <%ae>'']) (\<lambda>author.
     seq (console_log (str ''  AUTHOR:           '' @ author))
    (bind (stdout_of h (str ''git'')
             [str ''log'', str ''-1'', str ''--pretty=format:%ad'',
              str ''--date=format:%Y-%m-%d %H:%M:%S %Z'']) (\<lambda>commitDate.
     seq (console_log (str ''  COMMIT DATE:      '' @ commitDate))
    (bind (stdout_of h (str ''git'') [str ''remote'', str ''get-url'', str ''origin''])
       (\<lambda>remote.
     seq (console_log (str ''  REMOTE URL:       '' @ or_else remote (str ''N/A'')))
    (bind (stdout_of h (str ''git'') [str ''tag'', str ''--points-at'', str ''HEAD''])
       (\<lambda>tags.
     seq (emit [ConsoleLog (str ''  TAGS AT HEAD:     '' @
                            or_else (remove_final 44 (replace_all 10 [44] tags)) (str ''N/A'')),
                ConsoleLog []])
    (bind (stdout_of h (str ''git'') [str ''log'', str ''-1'', str ''--pretty=%B''])
       (\<lambda>commitMessage.
     emit [ConsoleLog (str ''  COMMIT MESSAGE:''),
           ConsoleLog (formatBlock commitMessage (str ''    '')),
           ConsoleLog rule40,
           EndGroup]))))))))))))))))"

subsection \<open>Stage 4: Java and directory tree\<close>

definition java_not_found_message :: js_string where
  "java_not_found_message =
     str ''    '' @ arrow @ str '' Java not found in PATH or -version command failed.''"

definition java_probe :: "host \<Rightarrow> unit action" where
  "java_probe h =
     bind (getCommandOutput h (str ''java'') [str ''-version''])
       (\<lambda>javaVersionCmd.
          if exitCode javaVersionCmd = 0 \<and>
             (stdout javaVersionCmd \<noteq> [] \<or> stderr javaVersionCmd \<noteq> [])
          then emit [ConsoleLog (str ''    '' @ arrow @ str '' Version:''),
                     ConsoleLog (formatBlock
                                   (or_else (stderr javaVersionCmd) (stdout javaVersionCmd))
                                   (str ''      --> '')),
                     ConsoleLog (str ''    '' @ arrow @ str '' JAVA_HOME:    '' @
                                 (if truthy (environ h (str ''JAVA_HOME''))
                                  then the (environ h (str ''JAVA_HOME''))
                                  else str ''N/A (Not explicitly set or found)''))]
          else console_log java_not_found_message)"

definition workspace_or_dot :: "js_string option \<Rightarrow> js_string" where
  "workspace_or_dot workspace = (if truthy workspace then the workspace else str ''.'')"

definition tree_args :: "js_string option \<Rightarrow> js_string list" where
  "tree_args workspace =
     [str ''-L'', str ''3'', str ''-a'', str ''-I'', str ''.git|.m2|target|node_modules'',
      workspace_or_dot workspace]"

definition win_tree_args :: "js_string option \<Rightarrow> js_string list" where
  "win_tree_args workspace =
     [str ''/c'', str ''tree'', str ''/F'', str ''/A'', workspace_or_dot workspace]"

definition tree_missing_message :: js_string where
  "tree_missing_message =
     str ''    '' @ arrow @
     str '' 'tree' command not found or failed. Please install it on the runner for a detailed view.''"

definition win_tree_failed_message :: js_string where
  "win_tree_failed_message =
     str ''    '' @ arrow @ str '' Windows 'tree' command also failed or directory is empty.''"

definition win_tree_fallback_message :: js_string where
  "win_tree_fallback_message =
     str ''    '' @ arrow @
     str '' 'tree' command failed or not found. Using 'cmd /c tree /F /A' for Windows (basic):''"

definition tree_error_message :: js_string where
  "tree_error_message = str ''    '' @ arrow @ str '' Error executing tree command.''"

definition tree_probe :: "host \<Rightarrow> js_string option \<Rightarrow> unit action" where
  "tree_probe h workspace =
     try_catch
       (bind (getCommandOutput h (str ''tree'') (tree_args workspace))
          (\<lambda>tree.
             if exitCode tree = 0 \<and> stdout tree \<noteq> [] then
               console_log (formatBlock (stdout tree) (str ''    ''))
             else if runner_os h = Some (str ''Windows'') then
               seq (console_log win_tree_fallback_message)
                   (bind (getCommandOutput h (str ''cmd'') (win_tree_args workspace))
                      (\<lambda>winTree.
                         if exitCode winTree = 0 \<and> stdout winTree \<noteq> []
                         then console_log (formatBlock (stdout winTree) (str ''      ''))
                         else console_log win_tree_failed_message))
             else console_log tree_missing_message))
       (\<lambda>treeError.
          emit [Warning (str ''Tree command execution error: '' @ message treeError),
                ConsoleLog tree_error_message])"

definition rule54 :: js_string where
  "rule54 = str ''======================================================''"

definition extended_header :: js_string where
  "extended_header =
     [9749] @ str '' Java Environment & '' @ [55357, 56513] @ str '' Directory Structure''"

definition extended_inspector :: "host \<Rightarrow> js_string option \<Rightarrow> unit action" where
  "extended_inspector h workspace =
     seq (emit [StartGroup extended_header,
                ConsoleLog rule54,
                ConsoleLog (str ''  JAVA DETAILS:'')])
    (seq (java_probe h)
    (seq (emit [ConsoleLog [],
                ConsoleLog (str ''  DIRECTORY TREE (current workspace, max depth 3):'')])
    (seq (tree_probe h workspace)
         (emit [ConsoleLog rule54, EndGroup]))))"

subsection \<open>The run\<close>

definition showExtendedInfo :: "host \<Rightarrow> bool" where
  "showExtendedInfo h \<longleftrightarrow> getInput h (str ''show_extended_info'') = str ''true''"

definition run_body :: "host \<Rightarrow> unit action" where
  "run_body h =
     bind (generate_timestamp h) (\<lambda>ts.
     seq (platform_inspector h ts)
    (seq (repository_inspector h (environ h (str ''GITHUB_WORKSPACE'')))
         (if showExtendedInfo h
          then extended_inspector h (environ h (str ''GITHUB_WORKSPACE''))
          else return ())))"

text \<open>The outer \<open>try\<close>/\<open>catch\<close> of \<open>run\<close>: whatever is thrown marks the run failed.\<close>

definition run :: "host \<Rightarrow> event list" where
  "run h =
     (case run_body h of
        (es, Inl error) \<Rightarrow>
          es @ [SetFailed (str ''Action failed: '' @ message error @ [10] @ stack error)]
      | (es, Inr _) \<Rightarrow> es)"

section \<open>Reading a run\<close>

text \<open>The child processes a run tried to start, in order.\<close>

fun spawned :: "event list \<Rightarrow> (js_string \<times> js_string list) list" where
  "spawned [] = []"
| "spawned (Spawn c a # es) = (c, a) # spawned es"
| "spawned (_ # es) = spawned es"

text \<open>The outputs set through \<open>core.setOutput\<close>, in order.\<close>

fun outputs :: "event list \<Rightarrow> (js_string \<times> js_string) list" where
  "outputs [] = []"
| "outputs (SetOutput n v # es) = (n, v) # outputs es"
| "outputs (_ # es) = outputs es"

text \<open>The message of the first \<open>core.setFailed\<close>, if the run was marked failed.\<close>

fun failure :: "event list \<Rightarrow> js_string option" where
  "failure [] = None"
| "failure (SetFailed m # es) = Some m"
| "failure (_ # es) = failure es"

text \<open>The lines written with \<open>console.log\<close>, in order.\<close>

fun logged :: "event list \<Rightarrow> js_string list" where
  "logged [] = []"
| "logged (ConsoleLog s # es) = s # logged es"
| "logged (_ # es) = logged es"

definition events_satisfy :: "(event \<Rightarrow> bool) \<Rightarrow> 'a action \<Rightarrow> bool" where
  "events_satisfy P m \<longleftrightarrow> list_all P (fst m)"

text \<open>
  What the three stages that always run can emit: their own group headers, the
  timestamp output, log text, and child processes of four tools only.
\<close>

definition always_on_event :: "event \<Rightarrow> bool" where
  "always_on_event e =
     (case e of
        StartGroup s \<Rightarrow> s \<noteq> extended_header
      | SetOutput n v \<Rightarrow> True
      | SetFailed m \<Rightarrow> False
      | Spawn c a \<Rightarrow> c = str ''git'' \<or> c = str ''lsb_release'' \<or> c = str ''sw_vers'' \<or>
                     c = str ''powershell''
      | _ \<Rightarrow> True)"

definition not_output :: "event \<Rightarrow> bool" where
  "not_output e = (case e of SetOutput n v \<Rightarrow> False | _ \<Rightarrow> True)"

text \<open>The three stages that run whatever the flag says, as one computation.\<close>

definition always_on_stages :: "host \<Rightarrow> unit action" where
  "always_on_stages h =
     bind (generate_timestamp h) (\<lambda>ts.
     seq (platform_inspector h ts)
         (repository_inspector h (environ h (str ''GITHUB_WORKSPACE''))))"

text \<open>
  A child process that ran and reported failure the way the probes test it: a non-zero
  exit code, or nothing but white space on standard output.
\<close>

definition reported_failure :: "proc_outcome \<Rightarrow> bool" where
  "reported_failure p =
     (case p of
        Not_started e \<Rightarrow> False
      | Exited outs errs code \<Rightarrow> code \<noteq> 0 \<or> trim (concat outs) = [])"


text \<open>
  The steps of \<open>run\<close> before line 101 complete, so that the branch name is computed:
  stage 1 cannot throw, which leaves stage 2 and the safe-directory step. Line 103, the
  commit SHA, is reached when moreover the branch name has come back.
\<close>

definition reaches_branch_line :: "host \<Rightarrow> bool" where
  "reaches_branch_line h \<longleftrightarrow>
     snd (platform_inspector h (timestamp (clock h))) = Inr () \<and>
     snd (safe_directory h (environ h (str ''GITHUB_WORKSPACE''))) = Inr ()"

definition reaches_sha_line :: "host \<Rightarrow> bool" where
  "reaches_sha_line h \<longleftrightarrow>
     reaches_branch_line h \<and> (case snd (branch_name h) of Inl e \<Rightarrow> False | Inr b \<Rightarrow> True)"

subsection \<open>Sample hosts\<close>

text \<open>Concrete hosts on which the theorems below are exercised.\<close>

definition base_host :: host where
  "base_host =
     \<lparr>inputs = Map.empty,
      clock = \<lparr>utcFullYear = 2024, utcMonth = 2, utcDate = 5,
               utcHours = 7, utcMinutes = 2, utcSeconds = 9\<rparr>,
      environ = Map.empty,
      fs = Map.empty,
      process = (\<lambda>_ _. Exited [] [] 0),
      exit_error = (\<lambda>c a code. JsError (str ''The process failed with exit code '' @
                                         String_int code) []),
      missing_file_error = (\<lambda>path. JsError (str ''ENOENT: no such file or directory'') []),
      type_error = JsError (str ''TypeError'') [],
      os_type = str ''Linux'',
      os_release = str ''6.5.0'',
      os_version = str ''#1 SMP'',
      os_arch = str ''x64'',
      os_hostname = str ''runner'',
      total_memory_gb = str ''15.61'',
      free_memory_gb = str ''14.02''\<rparr>"

definition failing_command_host :: host where
  "failing_command_host =
     base_host\<lparr>process := (\<lambda>c a. Exited [str ''partial ''] [str '' boom'' @ [10]] 2)\<rparr>"

definition extended_host :: host where
  "extended_host =
     base_host\<lparr>inputs := [str ''show_extended_info'' \<mapsto> str ''true''],
               environ := [str ''RUNNER_OS'' \<mapsto> str ''macOS'']\<rparr>"

definition padded_true_host :: host where
  "padded_true_host =
     base_host\<lparr>inputs := [str ''show_extended_info'' \<mapsto> str '' true ''],
               environ := [str ''RUNNER_OS'' \<mapsto> str ''macOS'']\<rparr>"

definition java_missing_host :: host where
  "java_missing_host =
     base_host\<lparr>inputs := [str ''show_extended_info'' \<mapsto> str ''true''],
               environ := [str ''RUNNER_OS'' \<mapsto> str ''macOS''],
               process := (\<lambda>c a. if c = str ''java''
                                  then Not_started
                                         (JsError (str ''Unable to locate executable file: java'') [])
                                  else Exited [] [] 0)\<rparr>"

definition java_missing_windows_host :: host where
  "java_missing_windows_host =
     base_host\<lparr>inputs := [str ''show_extended_info'' \<mapsto> str ''true''],
               environ := [str ''RUNNER_OS'' \<mapsto> str ''Windows''],
               process := (\<lambda>c a. if c = str ''java''
                                  then Not_started
                                         (JsError (str ''Unable to locate executable file: java'') [])
                                  else Exited [str ''ok''] [] 0)\<rparr>"

definition empty_ref_host :: host where
  "empty_ref_host =
     base_host\<lparr>environ := [str ''GITHUB_REF_NAME'' \<mapsto> [], str ''GITHUB_SHA'' \<mapsto> str ''0123456789abcdef''],
               process := (\<lambda>c a. Exited [str ''main'' @ [10]] [] 0)\<rparr>"

definition windows_tree_failing_host :: host where
  "windows_tree_failing_host =
     base_host\<lparr>inputs := [str ''show_extended_info'' \<mapsto> str ''true''],
               environ := [str ''RUNNER_OS'' \<mapsto> str ''Windows''],
               process := (\<lambda>c a. Exited [] [str ''Parameter format not correct''] 1)\<rparr>"

definition linux_tree_failing_host :: host where
  "linux_tree_failing_host =
     base_host\<lparr>environ := [str ''RUNNER_OS'' \<mapsto> str ''Linux''],
               process := (\<lambda>c a. Exited [] [] 127)\<rparr>"





definition lsb_missing_host :: host where
  "lsb_missing_host =
     base_host\<lparr>environ := [str ''RUNNER_OS'' \<mapsto> str ''Linux''],
               process := (\<lambda>c a. if c = str ''lsb_release''
                                  then Not_started
                                         (JsError (str ''Unable to locate executable file: lsb_release'') [])
                                  else Exited [] [] 0)\<rparr>"

definition safe_directory_failing_host :: host where
  "safe_directory_failing_host =
     base_host\<lparr>environ := [str ''GITHUB_WORKSPACE'' \<mapsto> str ''/home/runner/work/app''],
               process := (\<lambda>c a. if c = str ''git'' \<and> take 1 a = [str ''config'']
                                  then Exited [] [str ''error: could not lock config file''] 255
                                  else Exited [str ''ok''] [] 0)\<rparr>"

section \<open>Basic facts\<close>

lemma foldl_append_concat: "foldl (@) a xs = a @ concat xs"
  by (induction xs arbitrary: a) simp_all

lemma getCommandOutput_exited:
  "process h c a = Exited outs errs code \<Longrightarrow>
   getCommandOutput h c a =
     ([Spawn c a], Inr \<lparr>stdout = trim (concat outs), stderr = trim (concat errs), exitCode = code\<rparr>)"
  by (simp add: getCommandOutput_def exec_exec_def bind_def return_def foldl_append_concat)

lemma getCommandOutput_not_started:
  "process h c a = Not_started e \<Longrightarrow> getCommandOutput h c a = ([Spawn c a], Inl e)"
  by (simp add: getCommandOutput_def exec_exec_def bind_def)

lemma fst_getCommandOutput: "fst (getCommandOutput h c a) = [Spawn c a]"
  by (cases "process h c a") (simp_all add: getCommandOutput_exited getCommandOutput_not_started)

lemma fst_bind:
  "fst (bind m f) = fst m @ (case snd m of Inl e \<Rightarrow> [] | Inr x \<Rightarrow> fst (f x))"
  by (cases m) (auto simp: bind_def split: sum.split prod.split)

lemma satisfy_return: "events_satisfy P (return x)"
  by (simp add: events_satisfy_def return_def)

lemma satisfy_throw: "events_satisfy P (throw e)"
  by (simp add: events_satisfy_def throw_def)

lemma satisfy_emit: "list_all P es \<Longrightarrow> events_satisfy P (emit es)"
  by (simp add: events_satisfy_def emit_def)

lemma satisfy_console_log: "P (ConsoleLog s) \<Longrightarrow> events_satisfy P (console_log s)"
  by (simp add: console_log_def satisfy_emit)

lemma satisfy_bind:
  "events_satisfy P m \<Longrightarrow> (\<And>x. events_satisfy P (f x)) \<Longrightarrow> events_satisfy P (bind m f)"
  by (simp add: events_satisfy_def fst_bind split: sum.split)

lemma satisfy_seq:
  "events_satisfy P m \<Longrightarrow> events_satisfy P k \<Longrightarrow> events_satisfy P (seq m k)"
  by (simp add: seq_def satisfy_bind)

lemma satisfy_try_catch:
  "events_satisfy P m \<Longrightarrow> (\<And>e. events_satisfy P (handler e)) \<Longrightarrow>
   events_satisfy P (try_catch m handler)"
proof (cases m)
  case (Pair es r)
  assume m: "events_satisfy P m" and hd: "\<And>e. events_satisfy P (handler e)"
  show ?thesis
  proof (cases r)
    case (Inl e)
    obtain es' r' where h: "handler e = (es', r')" by (cases "handler e")
    from hd [of e] h have "list_all P es'" by (simp add: events_satisfy_def)
    with m Pair Inl h show ?thesis by (simp add: events_satisfy_def try_catch_def)
  next
    case (Inr x)
    with m Pair show ?thesis by (simp add: events_satisfy_def try_catch_def)
  qed
qed

lemma satisfy_if:
  "(b \<Longrightarrow> events_satisfy P m) \<Longrightarrow> (\<not> b \<Longrightarrow> events_satisfy P k) \<Longrightarrow>
   events_satisfy P (if b then m else k)"
  by simp

lemma satisfy_map_action:
  "(\<And>x. events_satisfy P (f x)) \<Longrightarrow> events_satisfy P (map_action f xs)"
  by (induction xs) (simp_all add: satisfy_return satisfy_bind)

lemma satisfy_getCommandOutput:
  "P (Spawn c a) \<Longrightarrow> events_satisfy P (getCommandOutput h c a)"
  by (simp add: events_satisfy_def fst_getCommandOutput)

lemma satisfy_stdout_of:
  "P (Spawn c a) \<Longrightarrow> events_satisfy P (stdout_of h c a)"
  by (simp add: stdout_of_def satisfy_bind satisfy_getCommandOutput satisfy_return)

lemma satisfy_exec_exec:
  "P (Spawn c a) \<Longrightarrow> P (EchoCommand c a) \<Longrightarrow> (\<And>s. P (EchoOutput s)) \<Longrightarrow>
   events_satisfy P (exec_exec h c a opts)"
  by (cases "process h c a") (auto simp: events_satisfy_def exec_exec_def list_all_iff)

lemma satisfy_env_or:
  "events_satisfy P m \<Longrightarrow> events_satisfy P (env_or v m)"
  by (simp add: env_or_def satisfy_return)

lemma satisfy_field_value: "events_satisfy P (field_value h l)"
  by (simp add: field_value_def satisfy_return satisfy_throw split: list.split)

lemma satisfy_readFileSync: "events_satisfy P (readFileSync h p)"
  by (simp add: readFileSync_def satisfy_return satisfy_throw split: option.split fs_entry.split)

lemmas satisfy_intros =
  satisfy_return satisfy_throw satisfy_emit satisfy_console_log satisfy_bind satisfy_seq
  satisfy_try_catch satisfy_if satisfy_map_action satisfy_getCommandOutput satisfy_stdout_of
  satisfy_exec_exec satisfy_env_or satisfy_field_value satisfy_readFileSync

lemma str_eq_iff [simp]: "str a = str b \<longleftrightarrow> a = b"
  by (simp add: str_def inj_map_eq_map inj_on_def)

lemma stage1_always_on: "events_satisfy always_on_event (generate_timestamp h)"
  unfolding generate_timestamp_def Let_def
  by (intro satisfy_intros) (simp_all add: always_on_event_def extended_header_def str_def)

lemma stage2_always_on: "events_satisfy always_on_event (platform_inspector h ts)"
  unfolding platform_inspector_def linux_distro_def macos_version_def windows_details_def
    distro_from_os_release_def Let_def
  by (intro satisfy_intros) (simp_all add: always_on_event_def extended_header_def str_def)

lemma stage3_always_on: "events_satisfy always_on_event (repository_inspector h ws)"
  unfolding repository_inspector_def safe_directory_def branch_name_def commit_sha_def
  by (intro satisfy_intros) (simp_all add: always_on_event_def extended_header_def str_def)

lemma stage2_not_output: "events_satisfy not_output (platform_inspector h ts)"
  unfolding platform_inspector_def linux_distro_def macos_version_def windows_details_def
    distro_from_os_release_def Let_def
  by (intro satisfy_intros) (simp_all add: not_output_def)

lemma stage3_not_output: "events_satisfy not_output (repository_inspector h ws)"
  unfolding repository_inspector_def safe_directory_def branch_name_def commit_sha_def
  by (intro satisfy_intros) (simp_all add: not_output_def)

lemma stage4_not_output: "events_satisfy not_output (extended_inspector h ws)"
  unfolding extended_inspector_def java_probe_def tree_probe_def
  by (intro satisfy_intros) (simp_all add: not_output_def)

section \<open>The command-execution helper\<close>

text \<open>
  C3. Whatever the command and its arguments, when the child process runs to an exit
  \<open>getCommandOutput\<close> returns and does not throw, also for a non-zero exit code: the
  result holds the trimmed text of everything written to standard output, the trimmed text
  of everything written to standard error, and the exit code unchanged. The only effect
  is that the process was started: nothing of the child's streams is copied to the
  action's own output.
\<close>

theorem getCommandOutput_returns_result_on_any_exit:
  assumes "process h command args = Exited outs errs code"
  shows "getCommandOutput h command args =
           ([Spawn command args],
            Inr \<lparr>stdout = trim (concat outs), stderr = trim (concat errs), exitCode = code\<rparr>)"
  using assms by (rule getCommandOutput_exited)

theorem getCommandOutput_returns_result_on_any_exit_witness:
  "process failing_command_host (str ''false'') [] =
     Exited [str ''partial ''] [str '' boom'' @ [10]] 2 \<and>
   getCommandOutput failing_command_host (str ''false'') [] =
     ([Spawn (str ''false'') []],
      Inr \<lparr>stdout = str ''partial'', stderr = str ''boom'', exitCode = 2\<rparr>)"
proof -
  have p: "process failing_command_host (str ''false'') [] =
             Exited [str ''partial ''] [str '' boom'' @ [10]] 2"
    by (simp add: failing_command_host_def base_host_def)
  show ?thesis
    using p getCommandOutput_returns_result_on_any_exit [OF p]
    by (simp add: trim_def is_white_space_def str_def)
qed

section \<open>The timestamp\<close>

lemma digits_lt10: "n < 10 \<Longrightarrow> digits n = [48 + n]"
  by (simp add: digits.simps)

lemma digits_lt100: "10 \<le> n \<Longrightarrow> n < 100 \<Longrightarrow> digits n = [48 + n div 10, 48 + n mod 10]"
  by (subst digits.simps) (simp add: digits_lt10)

lemma pad2_lt100: "n < 100 \<Longrightarrow> pad2 n = [48 + n div 10, 48 + n mod 10]"
  by (cases "n < 10")
     (simp_all add: pad2_def padStart_def String_nat_def digits_lt10 digits_lt100 str_def)

lemma digits_four:
  "1000 \<le> n \<Longrightarrow> n < 10000 \<Longrightarrow>
   digits n = [48 + n div 1000, 48 + n div 100 mod 10, 48 + n div 10 mod 10, 48 + n mod 10]"
  apply (subst digits.simps)
  apply (subst digits.simps)
  apply (simp add: digits_lt100 div_mult2_eq [symmetric])
  done

lemma outputs_append: "outputs (es @ es') = outputs es @ outputs es'"
  by (induction es rule: outputs.induct) simp_all

lemma outputs_not_output: "list_all not_output es \<Longrightarrow> outputs es = []"
  by (induction es rule: outputs.induct) (simp_all add: not_output_def)

lemma later_stages_not_output:
  "events_satisfy not_output
     (seq (platform_inspector h ts)
        (seq (repository_inspector h ws)
           (if b then extended_inspector h ws else return ())))"
  by (intro satisfy_intros stage2_not_output stage3_not_output stage4_not_output)

lemma bind_returned: "bind (es, Inr x) f = (es @ fst (f x), snd (f x))"
  by (simp add: bind_def split: prod.split)

lemma bind_thrown: "bind (es, Inl e) f = (es, Inl e)"
  by (simp add: bind_def)

lemma generate_timestamp_eq:
  "generate_timestamp h =
     ([StartGroup ([55357, 56658] @ str '' Generating Timestamp''),
       SetOutput (str ''formatted_run_timestamp'') (timestamp (clock h)),
       ConsoleLog (str ''Generated Timestamp: '' @ timestamp (clock h)),
       EndGroup], Inr (timestamp (clock h)))"
  by (simp add: generate_timestamp_def Let_def seq_def emit_def return_def bind_def)

lemma run_tail_not_output:
  "\<exists>tail. run h = fst (run_body h) @ tail \<and> list_all not_output tail"
  by (cases "run_body h") (auto simp: run_def not_output_def split: sum.split)

lemma outputs_run: "outputs (run h) = [(str ''formatted_run_timestamp'', timestamp (clock h))]"
proof -
  have "outputs (fst (run_body h)) = [(str ''formatted_run_timestamp'', timestamp (clock h))]"
    using later_stages_not_output [of h "timestamp (clock h)"
        "environ h (str ''GITHUB_WORKSPACE'')" "showExtendedInfo h"]
    by (simp add: run_body_def generate_timestamp_eq bind_returned outputs_append
          events_satisfy_def outputs_not_output)
  with run_tail_not_output [of h] show ?thesis
    by (auto simp: outputs_append outputs_not_output)
qed

text \<open>
  C4. For a clock whose UTC fields are in their ranges, the timestamp is the year in
  decimal followed by exactly \<open>-MM-DD HH:MM:SS UTC\<close>: month (the zero-based
  \<open>getUTCMonth\<close> plus one), day, hour, minute and second as two decimal digits each,
  the tens digit being \<open>0\<close> below ten, between the separators \<open>-\<close>, \<open>-\<close>, space,
  \<open>:\<close>, \<open>:\<close> and followed by \<open> UTC\<close>. For the years 1000 to 9999 the year is
  four digits, so the whole string is the 23 code units \<open>YYYY-MM-DD HH:MM:SS UTC\<close>.
  Whatever else happens in the run, its outputs are this one string under the name
  \<open>formatted_run_timestamp\<close> and nothing more.
\<close>

theorem timestamp_format_and_single_output:
  assumes "utcMonth (clock h) < 12" and "utcDate (clock h) \<le> 31"
    and "utcHours (clock h) < 24" and "utcMinutes (clock h) < 60"
    and "utcSeconds (clock h) < 60"
  shows "timestamp (clock h) =
     String_int (utcFullYear (clock h)) @
     [45,
      48 + (utcMonth (clock h) + 1) div 10, 48 + (utcMonth (clock h) + 1) mod 10,
      45,
      48 + utcDate (clock h) div 10, 48 + utcDate (clock h) mod 10,
      32,
      48 + utcHours (clock h) div 10, 48 + utcHours (clock h) mod 10,
      58,
      48 + utcMinutes (clock h) div 10, 48 + utcMinutes (clock h) mod 10,
      58,
      48 + utcSeconds (clock h) div 10, 48 + utcSeconds (clock h) mod 10,
      32, 85, 84, 67] \<and>
    (1000 \<le> utcFullYear (clock h) \<and> utcFullYear (clock h) \<le> 9999 \<longrightarrow>
       String_int (utcFullYear (clock h)) =
         [48 + nat (utcFullYear (clock h)) div 1000,
          48 + nat (utcFullYear (clock h)) div 100 mod 10,
          48 + nat (utcFullYear (clock h)) div 10 mod 10,
          48 + nat (utcFullYear (clock h)) mod 10] \<and>
       length (timestamp (clock h)) = 23) \<and>
    outputs (run h) = [(str ''formatted_run_timestamp'', timestamp (clock h))]"
proof -
  have t: "timestamp (clock h) =
     String_int (utcFullYear (clock h)) @
     [45,
      48 + (utcMonth (clock h) + 1) div 10, 48 + (utcMonth (clock h) + 1) mod 10,
      45,
      48 + utcDate (clock h) div 10, 48 + utcDate (clock h) mod 10,
      32,
      48 + utcHours (clock h) div 10, 48 + utcHours (clock h) mod 10,
      58,
      48 + utcMinutes (clock h) div 10, 48 + utcMinutes (clock h) mod 10,
      58,
      48 + utcSeconds (clock h) div 10, 48 + utcSeconds (clock h) mod 10,
      32, 85, 84, 67]"
    using assms by (simp add: timestamp_def pad2_lt100 str_def)
  have y: "String_int (utcFullYear (clock h)) =
         [48 + nat (utcFullYear (clock h)) div 1000,
          48 + nat (utcFullYear (clock h)) div 100 mod 10,
          48 + nat (utcFullYear (clock h)) div 10 mod 10,
          48 + nat (utcFullYear (clock h)) mod 10]"
    if "1000 \<le> utcFullYear (clock h) \<and> utcFullYear (clock h) \<le> 9999"
  proof -
    from that have "1000 \<le> nat (utcFullYear (clock h))" and "nat (utcFullYear (clock h)) < 10000"
      by linarith+
    from digits_four [OF this] that show ?thesis
      by (simp add: String_int_def)
  qed
  show ?thesis
    using t y outputs_run [of h] by simp
qed

theorem timestamp_format_and_single_output_witness:
  "clock base_host = \<lparr>utcFullYear = 2024, utcMonth = 2, utcDate = 5,
                       utcHours = 7, utcMinutes = 2, utcSeconds = 9\<rparr> \<and>
   timestamp (clock base_host) = str ''2024-03-05 07:02:09 UTC'' \<and>
   outputs (run base_host) = [(str ''formatted_run_timestamp'', str ''2024-03-05 07:02:09 UTC'')]"
  using timestamp_format_and_single_output [of base_host]
  by (simp add: base_host_def str_def)

section \<open>The flag and the extended section\<close>

lemma seq_assoc: "seq (seq a b) c = seq a (seq b c)"
  by (cases a; cases b; cases c) (auto simp: seq_def bind_def split: sum.split prod.split)

lemma bind_seq_assoc: "seq (bind m f) k = bind m (\<lambda>x. seq (f x) k)"
  by (cases m) (auto simp: seq_def bind_def split: sum.split prod.split)

lemma run_body_split:
  "run_body h =
     seq (always_on_stages h)
         (if showExtendedInfo h
          then extended_inspector h (environ h (str ''GITHUB_WORKSPACE''))
          else return ())"
  by (simp add: run_body_def always_on_stages_def bind_seq_assoc seq_assoc)

lemma seq_return: "seq m (return ()) = m"
  by (cases m) (auto simp: seq_def bind_def return_def split: sum.split)

lemma always_on_stages_events: "events_satisfy always_on_event (always_on_stages h)"
  unfolding always_on_stages_def
  by (intro satisfy_intros stage1_always_on stage2_always_on stage3_always_on)

lemma run_cases:
  "run h = fst (run_body h) \<or> (\<exists>m. run h = fst (run_body h) @ [SetFailed m])"
  by (cases "run_body h") (auto simp: run_def split: sum.split)

lemma spawn_in_run: "Spawn c a \<in> set (run h) \<longleftrightarrow> Spawn c a \<in> set (fst (run_body h))"
  using run_cases [of h] by auto

lemma group_in_run: "StartGroup s \<in> set (run h) \<longleftrightarrow> StartGroup s \<in> set (fst (run_body h))"
  using run_cases [of h] by auto

lemma always_on_spawn:
  "list_all always_on_event es \<Longrightarrow> Spawn c a \<in> set es \<Longrightarrow>
   c = str ''git'' \<or> c = str ''lsb_release'' \<or> c = str ''sw_vers'' \<or> c = str ''powershell''"
  by (auto simp: list_all_iff always_on_event_def)

lemma always_on_group:
  "list_all always_on_event es \<Longrightarrow> StartGroup extended_header \<notin> set es"
  by (auto simp: list_all_iff always_on_event_def)

lemma flag_off_events:
  "\<not> showExtendedInfo h \<Longrightarrow> list_all always_on_event (fst (run_body h))"
  using always_on_stages_events [of h]
  by (simp add: run_body_split seq_return events_satisfy_def)

lemma fst_seq: "fst (seq m k) = fst m @ (case snd m of Inl e \<Rightarrow> [] | Inr x \<Rightarrow> fst k)"
  by (simp add: seq_def fst_bind)

lemma snd_seq: "snd m = Inr () \<Longrightarrow> snd (seq m k) = snd k"
  by (cases m) (simp add: seq_def bind_def split: prod.split)

lemma java_probe_returns:
  "process h (str ''java'') [str ''-version''] = Exited outs errs code \<Longrightarrow>
   snd (java_probe h) = Inr ()"
  by (simp add: java_probe_def getCommandOutput_exited bind_returned emit_def console_log_def)

lemma fst_try_catch:
  "fst (try_catch m handler) = fst m @ (case snd m of Inl e \<Rightarrow> fst (handler e) | Inr x \<Rightarrow> [])"
  by (cases m) (simp add: try_catch_def split: sum.split prod.split)

lemma tree_probe_spawns:
  "Spawn (str ''tree'') (tree_args ws) \<in> set (fst (tree_probe h ws))"
  by (simp add: tree_probe_def fst_try_catch fst_bind fst_getCommandOutput)

lemma extended_inspector_events:
  "StartGroup extended_header \<in> set (fst (extended_inspector h ws)) \<and>
   Spawn (str ''java'') [str ''-version''] \<in> set (fst (extended_inspector h ws)) \<and>
   (snd (java_probe h) = Inr () \<longrightarrow>
      Spawn (str ''tree'') (tree_args ws) \<in> set (fst (extended_inspector h ws)))"
proof -
  have j: "Spawn (str ''java'') [str ''-version''] \<in> set (fst (java_probe h))"
    by (simp add: java_probe_def fst_bind fst_getCommandOutput)
  have e: "fst (extended_inspector h ws) =
      [StartGroup extended_header, ConsoleLog rule54, ConsoleLog (str ''  JAVA DETAILS:'')] @
      fst (seq (java_probe h)
            (seq (emit [ConsoleLog [],
                ConsoleLog (str ''  DIRECTORY TREE (current workspace, max depth 3):'')])
              (seq (tree_probe h ws) (emit [ConsoleLog rule54, EndGroup]))))"
    by (simp add: extended_inspector_def fst_seq emit_def)
  show ?thesis
    using j tree_probe_spawns [of ws h]
    by (simp add: e fst_seq emit_def)
qed

lemma flag_on_events:
  assumes "showExtendedInfo h" and "snd (always_on_stages h) = Inr ()"
  shows "fst (run_body h) =
           fst (always_on_stages h) @
           fst (extended_inspector h (environ h (str ''GITHUB_WORKSPACE'')))"
  using assms by (simp add: run_body_split fst_seq)

text \<open>
  What does hold of the flag. With the flag false the run starts no \<open>java\<close>, \<open>tree\<close>
  or \<open>cmd\<close> process and opens no group with the extended section's header. With the flag
  true, provided the three stages before it have completed, the section is opened and the
  Java query is started, and provided that query comes back the tree listing is started
  as well; the condition itself never looks at the runner's operating system.
\<close>

lemma extended_section_when_stages_complete:
  "(\<not> showExtendedInfo h \<longrightarrow>
      StartGroup extended_header \<notin> set (run h) \<and>
      (\<forall>a. Spawn (str ''java'') a \<notin> set (run h) \<and>
           Spawn (str ''tree'') a \<notin> set (run h) \<and>
           Spawn (str ''cmd'') a \<notin> set (run h))) \<and>
   (showExtendedInfo h \<and> snd (always_on_stages h) = Inr () \<longrightarrow>
      StartGroup extended_header \<in> set (run h) \<and>
      Spawn (str ''java'') [str ''-version''] \<in> set (run h) \<and>
      (\<forall>outs errs code.
         process h (str ''java'') [str ''-version''] = Exited outs errs code \<longrightarrow>
         Spawn (str ''tree'') (tree_args (environ h (str ''GITHUB_WORKSPACE''))) \<in> set (run h)))"
proof (intro conjI impI allI)
  assume off: "\<not> showExtendedInfo h"
  note ev = flag_off_events [OF off]
  show "StartGroup extended_header \<notin> set (run h)"
    using always_on_group [OF ev] by (simp add: group_in_run)
  fix a
  show "Spawn (str ''java'') a \<notin> set (run h)"
    using always_on_spawn [OF ev, of "str ''java''" a] by (auto simp: spawn_in_run)
  show "Spawn (str ''tree'') a \<notin> set (run h)"
    using always_on_spawn [OF ev, of "str ''tree''" a] by (auto simp: spawn_in_run)
  show "Spawn (str ''cmd'') a \<notin> set (run h)"
    using always_on_spawn [OF ev, of "str ''cmd''" a] by (auto simp: spawn_in_run)
next
  assume on: "showExtendedInfo h \<and> snd (always_on_stages h) = Inr ()"
  then have ev: "fst (run_body h) =
           fst (always_on_stages h) @
           fst (extended_inspector h (environ h (str ''GITHUB_WORKSPACE'')))"
    by (simp add: flag_on_events)
  note ext = extended_inspector_events [of h "environ h (str ''GITHUB_WORKSPACE'')"]
  show "StartGroup extended_header \<in> set (run h)"
    using ext by (simp add: group_in_run ev)
  show "Spawn (str ''java'') [str ''-version''] \<in> set (run h)"
    using ext by (simp add: spawn_in_run ev)
  fix outs errs code
  assume "process h (str ''java'') [str ''-version''] = Exited outs errs code"
  then have "snd (java_probe h) = Inr ()" by (rule java_probe_returns)
  then show "Spawn (str ''tree'') (tree_args (environ h (str ''GITHUB_WORKSPACE''))) \<in> set (run h)"
    using ext by (simp add: spawn_in_run ev)
qed

lemma trim_Nil: "trim [] = []"
  by (simp add: trim_def)

text \<open>
  C9, as amended. The flag holds exactly when the raw input string, with the white space
  at its two ends removed, is the four code units \<open>t\<close>, \<open>r\<close>, \<open>u\<close>, \<open>e\<close>. The raw
  string \<open>true\<close> itself switches it on; \<open>True\<close>, \<open>TRUE\<close>, \<open>1\<close> and the empty
  string leave it off, and with the flag off the run opens no extended section.
\<close>

theorem flag_is_trimmed_lowercase_true:
  "(showExtendedInfo h \<longleftrightarrow>
      trim (raw_input h (str ''show_extended_info'')) = [116, 114, 117, 101]) \<and>
   (raw_input h (str ''show_extended_info'') = str ''true'' \<longrightarrow> showExtendedInfo h) \<and>
   (raw_input h (str ''show_extended_info'') \<in> {str ''True'', str ''TRUE'', str ''1'', []} \<longrightarrow>
      \<not> showExtendedInfo h) \<and>
   (trim (raw_input h (str ''show_extended_info'')) \<noteq> str ''true'' \<longrightarrow>
      StartGroup extended_header \<notin> set (run h))"
proof (intro conjI impI)
  show "showExtendedInfo h \<longleftrightarrow>
      trim (raw_input h (str ''show_extended_info'')) = [116, 114, 117, 101]"
    by (simp add: showExtendedInfo_def getInput_def) (simp add: str_def)
  assume "raw_input h (str ''show_extended_info'') = str ''true''"
  then show "showExtendedInfo h"
    by (simp add: showExtendedInfo_def getInput_def)
       (simp add: trim_def is_white_space_def str_def)
next
  assume "raw_input h (str ''show_extended_info'') \<in> {str ''True'', str ''TRUE'', str ''1'', []}"
  then show "\<not> showExtendedInfo h"
    by (auto simp: showExtendedInfo_def getInput_def)
       (simp_all add: trim_def is_white_space_def str_def)
next
  assume "trim (raw_input h (str ''show_extended_info'')) \<noteq> str ''true''"
  then have "\<not> showExtendedInfo h" by (simp add: showExtendedInfo_def getInput_def)
  then show "StartGroup extended_header \<notin> set (run h)"
    using always_on_group [OF flag_off_events] by (simp add: group_in_run)
qed

theorem flag_is_trimmed_lowercase_true_witness:
  "raw_input base_host (str ''show_extended_info'') = [] \<and>
   \<not> showExtendedInfo base_host \<and>
   StartGroup extended_header \<notin> set (run base_host) \<and>
   raw_input extended_host (str ''show_extended_info'') = str ''true'' \<and>
   showExtendedInfo extended_host"
proof -
  have b: "raw_input base_host (str ''show_extended_info'') = []"
    by (simp add: raw_input_def base_host_def)
  have e: "raw_input extended_host (str ''show_extended_info'') = str ''true''"
    by (simp add: raw_input_def extended_host_def base_host_def)
  have n: "trim [] \<noteq> [116, 114, 117, 101]" "trim [] \<noteq> str ''true''"
    by (simp_all add: trim_def str_def)
  have y: "trim (str ''true'') = [116, 114, 117, 101]"
    by (simp add: trim_def is_white_space_def str_def)
  show ?thesis
    using flag_is_trimmed_lowercase_true [of base_host]
      flag_is_trimmed_lowercase_true [of extended_host] n y
    by (simp add: b e)
qed

lemma padded_true_host_flag: "showExtendedInfo padded_true_host"
  by (simp add: showExtendedInfo_def getInput_def raw_input_def padded_true_host_def
        base_host_def trim_def is_white_space_def str_def)

lemma process_padded_true_host: "process padded_true_host c a = Exited [] [] 0"
  by (simp add: padded_true_host_def base_host_def)

lemma padded_true_host_env:
  "environ padded_true_host k = (if k = str ''RUNNER_OS'' then Some (str ''macOS'') else None)"
  by (simp add: padded_true_host_def base_host_def)

lemma stdout_of_padded_true_host: "stdout_of padded_true_host c a = ([Spawn c a], Inr [])"
  by (simp add: stdout_of_def getCommandOutput_exited [OF process_padded_true_host]
        bind_returned return_def trim_Nil)

lemma padded_true_host_always_on: "snd (always_on_stages padded_true_host) = Inr ()"
  by (simp add: always_on_stages_def generate_timestamp_eq bind_returned snd_seq
        platform_inspector_def repository_inspector_def safe_directory_def branch_name_def
        commit_sha_def env_or_def truthy_def runner_os_def macos_version_def
        padded_true_host_env stdout_of_padded_true_host
        getCommandOutput_exited [OF process_padded_true_host] trim_Nil
        seq_def emit_def return_def console_log_def)

text \<open>
  The claim as first stated compares the raw input string itself with \<open>true\<close>. The raw
  string \<open> true \<close>, with a space on either side, is not that string, and yet it
  switches the flag on and the run opens the extended section.
\<close>

theorem padded_true_counterexample:
  "raw_input padded_true_host (str ''show_extended_info'') = str '' true '' \<and>
   str '' true '' \<noteq> str ''true'' \<and>
   showExtendedInfo padded_true_host \<and>
   StartGroup extended_header \<in> set (run padded_true_host)"
proof -
  have "StartGroup extended_header \<in> set (run padded_true_host)"
    using extended_inspector_events [of padded_true_host "environ padded_true_host (str ''GITHUB_WORKSPACE'')"]
    by (simp add: group_in_run flag_on_events [OF padded_true_host_flag padded_true_host_always_on])
  then show ?thesis
    using padded_true_host_flag
    by (simp add: raw_input_def padded_true_host_def base_host_def)
qed

section \<open>Branch name and commit SHA\<close>

lemma stdout_of_exited:
  "process h c a = Exited outs errs code \<Longrightarrow>
   stdout_of h c a = ([Spawn c a], Inr (trim (concat outs)))"
  by (simp add: stdout_of_def getCommandOutput_exited bind_returned return_def)

lemma env_or_unset: "v = None \<or> v = Some [] \<Longrightarrow> env_or v m = m"
  by (auto simp: env_or_def truthy_def)

lemma env_or_set: "v = Some s \<Longrightarrow> s \<noteq> [] \<Longrightarrow> env_or v m = ([], Inr s)"
  by (simp add: env_or_def truthy_def return_def)

lemma short_sha_take: "short_sha s = take 7 s"
  by (simp add: short_sha_def substring_def Let_def min_def)

text \<open>
  The two computations on their own: an unset or empty variable makes each of them the
  \<open>rev-parse\<close> query, a non-empty one is returned without any query, and the short SHA is
  the first seven code units.
\<close>

lemma branch_and_sha_computations:
  "(environ h (str ''GITHUB_REF_NAME'') = None \<or> environ h (str ''GITHUB_REF_NAME'') = Some [] \<longrightarrow>
      branch_name h = stdout_of h (str ''git'') [str ''rev-parse'', str ''--abbrev-ref'', str ''HEAD'']) \<and>
   (environ h (str ''GITHUB_SHA'') = None \<or> environ h (str ''GITHUB_SHA'') = Some [] \<longrightarrow>
      commit_sha h = stdout_of h (str ''git'') [str ''rev-parse'', str ''HEAD'']) \<and>
   (\<forall>args outs errs code.
      process h (str ''git'') args = Exited outs errs code \<longrightarrow>
      stdout_of h (str ''git'') args = ([Spawn (str ''git'') args], Inr (trim (concat outs)))) \<and>
   (\<forall>v. environ h (str ''GITHUB_REF_NAME'') = Some v \<and> v \<noteq> [] \<longrightarrow> branch_name h = ([], Inr v)) \<and>
   (\<forall>v. environ h (str ''GITHUB_SHA'') = Some v \<and> v \<noteq> [] \<longrightarrow> commit_sha h = ([], Inr v)) \<and>
   short_sha sha = take 7 sha \<and> length (short_sha sha) = min 7 (length sha) \<and> short_sha [] = []"
  by (auto simp: branch_name_def commit_sha_def env_or_unset env_or_set stdout_of_exited
        short_sha_take)

section \<open>The Java probe\<close>

lemma split_not_Nil: "split sep s \<noteq> []"
  by (induction s) (simp_all split: list.split)

lemma join_Cons: "join sep (x # xs) = x @ (if xs = [] then [] else sep @ join sep xs)"
  by (cases xs) simp_all

lemma formatBlock_prefix: "take (length indent) (formatBlock t indent) = indent"
proof -
  obtain l ls where "split 10 t = l # ls"
    using split_not_Nil [of 10 t] by (cases "split 10 t") auto
  then show ?thesis by (simp add: formatBlock_def join_Cons)
qed

lemma java_not_found_not_block:
  "java_not_found_message \<noteq> formatBlock t (str ''      --> '')"
proof
  assume "java_not_found_message = formatBlock t (str ''      --> '')"
  then have "take (length (str ''      --> '')) java_not_found_message = str ''      --> ''"
    using formatBlock_prefix [of "str ''      --> ''" t] by simp
  then show False by (simp add: java_not_found_message_def arrow_def str_def)
qed

lemma java_probe_exited:
  assumes "process h (str ''java'') [str ''-version''] = Exited outs errs code"
  shows "java_probe h =
     (Spawn (str ''java'') [str ''-version''] #
      (if code = 0 \<and> (trim (concat outs) \<noteq> [] \<or> trim (concat errs) \<noteq> [])
       then [ConsoleLog (str ''    '' @ arrow @ str '' Version:''),
             ConsoleLog (formatBlock
                           (if trim (concat errs) \<noteq> [] then trim (concat errs)
                            else trim (concat outs))
                           (str ''      --> '')),
             ConsoleLog (str ''    '' @ arrow @ str '' JAVA_HOME:    '' @
                         (if truthy (environ h (str ''JAVA_HOME''))
                          then the (environ h (str ''JAVA_HOME''))
                          else str ''N/A (Not explicitly set or found)''))]
       else [ConsoleLog java_not_found_message]), Inr ())"
  by (simp add: java_probe_def getCommandOutput_exited [OF assms] bind_returned emit_def
        console_log_def or_else_def)

text \<open>
  What the probe does when the Java version query runs to an exit: if the exit code is
  zero and at least one of the two trimmed streams is non-empty, it logs the version
  block, whose text is the standard-error text when that is non-empty and the
  standard-output text otherwise; it logs the "not found" line exactly when both streams
  are empty or the exit code is not zero.
\<close>

lemma java_probe_on_exit:
  assumes "process h (str ''java'') [str ''-version''] = Exited outs errs code"
  shows "(code = 0 \<and> (trim (concat outs) \<noteq> [] \<or> trim (concat errs) \<noteq> []) \<longrightarrow>
            logged (fst (java_probe h)) =
              [str ''    '' @ arrow @ str '' Version:'',
               formatBlock (if trim (concat errs) \<noteq> [] then trim (concat errs)
                            else trim (concat outs)) (str ''      --> ''),
               str ''    '' @ arrow @ str '' JAVA_HOME:    '' @
                 (if truthy (environ h (str ''JAVA_HOME''))
                  then the (environ h (str ''JAVA_HOME''))
                  else str ''N/A (Not explicitly set or found)'')]) \<and>
         (java_not_found_message \<in> set (logged (fst (java_probe h))) \<longleftrightarrow>
            (trim (concat outs) = [] \<and> trim (concat errs) = []) \<or> code \<noteq> 0) \<and>
         snd (java_probe h) = Inr ()"
proof -
  have v: "java_not_found_message \<noteq> str ''    '' @ arrow @ str '' Version:''"
    by (simp add: java_not_found_message_def str_def)
  have j: "java_not_found_message \<noteq> str ''    '' @ arrow @ str '' JAVA_HOME:    '' @ x" for x
    by (simp add: java_not_found_message_def str_def)
  show ?thesis
    using v j java_not_found_not_block
    by (auto simp: java_probe_exited [OF assms])
qed

section \<open>The directory-tree probe\<close>

lemma try_catch_returned: "try_catch (es, Inr x) handler = (es, Inr x)"
  by (simp add: try_catch_def)

lemma try_catch_thrown: "try_catch (es, Inl e) handler = (es @ fst (handler e), snd (handler e))"
  by (simp add: try_catch_def split: prod.split)

lemma tree_probe_not_started:
  assumes "process h (str ''tree'') (tree_args ws) = Not_started e"
  shows "tree_probe h ws =
     ([Spawn (str ''tree'') (tree_args ws),
       Warning (str ''Tree command execution error: '' @ message e),
       ConsoleLog tree_error_message], Inr ())"
  by (simp add: tree_probe_def getCommandOutput_not_started [OF assms] bind_thrown
        try_catch_thrown emit_def)

lemma tree_probe_listed:
  assumes "process h (str ''tree'') (tree_args ws) = Exited outs errs code"
    and "code = 0" and "trim (concat outs) \<noteq> []"
  shows "tree_probe h ws =
     ([Spawn (str ''tree'') (tree_args ws),
       ConsoleLog (formatBlock (trim (concat outs)) (str ''    ''))], Inr ())"
  using assms(2,3)
  by (simp add: tree_probe_def getCommandOutput_exited [OF assms(1)] bind_returned
        try_catch_returned console_log_def emit_def)

lemma tree_probe_unavailable:
  assumes "process h (str ''tree'') (tree_args ws) = Exited outs errs code"
    and "code \<noteq> 0 \<or> trim (concat outs) = []"
    and "runner_os h \<noteq> Some (str ''Windows'')"
  shows "tree_probe h ws =
     ([Spawn (str ''tree'') (tree_args ws), ConsoleLog tree_missing_message], Inr ())"
  using assms(2,3)
  by (auto simp: tree_probe_def getCommandOutput_exited [OF assms(1)] bind_returned
        try_catch_returned console_log_def emit_def)

lemma tree_probe_windows:
  assumes "process h (str ''tree'') (tree_args ws) = Exited outs errs code"
    and "code \<noteq> 0 \<or> trim (concat outs) = []"
    and "runner_os h = Some (str ''Windows'')"
    and "process h (str ''cmd'') (win_tree_args ws) = Exited wouts werrs wcode"
  shows "tree_probe h ws =
     ([Spawn (str ''tree'') (tree_args ws),
       ConsoleLog win_tree_fallback_message,
       Spawn (str ''cmd'') (win_tree_args ws),
       ConsoleLog (if wcode = 0 \<and> trim (concat wouts) \<noteq> []
                   then formatBlock (trim (concat wouts)) (str ''      '')
                   else win_tree_failed_message)], Inr ())"
  using assms(2,3)
  by (auto simp: tree_probe_def getCommandOutput_exited [OF assms(1)]
        getCommandOutput_exited [OF assms(4)] bind_returned seq_def
        try_catch_returned console_log_def emit_def)

lemma tree_probe_windows_not_started:
  assumes "process h (str ''tree'') (tree_args ws) = Exited outs errs code"
    and "code \<noteq> 0 \<or> trim (concat outs) = []"
    and "runner_os h = Some (str ''Windows'')"
    and "process h (str ''cmd'') (win_tree_args ws) = Not_started e"
  shows "tree_probe h ws =
     ([Spawn (str ''tree'') (tree_args ws),
       ConsoleLog win_tree_fallback_message,
       Spawn (str ''cmd'') (win_tree_args ws),
       Warning (str ''Tree command execution error: '' @ message e),
       ConsoleLog tree_error_message], Inr ())"
  using assms(2,3)
  by (auto simp: tree_probe_def getCommandOutput_exited [OF assms(1)]
        getCommandOutput_not_started [OF assms(4)] bind_returned bind_thrown seq_def
        try_catch_thrown console_log_def emit_def)

lemma tree_probe_spawn_cases:
  assumes "Spawn c a \<in> set (fst (tree_probe h ws))"
  shows "(c = str ''tree'' \<and> a = tree_args ws) \<or>
         (c = str ''cmd'' \<and> a = win_tree_args ws \<and> runner_os h = Some (str ''Windows'') \<and>
          reported_failure (process h (str ''tree'') (tree_args ws)))"
proof (cases "process h (str ''tree'') (tree_args ws)")
  case (Not_started e)
  with assms show ?thesis by (simp add: tree_probe_not_started)
next
  case (Exited outs errs code)
  show ?thesis
  proof (cases "code = 0 \<and> trim (concat outs) \<noteq> []")
    case True
    with assms Exited show ?thesis by (simp add: tree_probe_listed)
  next
    case False
    then have f: "code \<noteq> 0 \<or> trim (concat outs) = []" by blast
    show ?thesis
    proof (cases "runner_os h = Some (str ''Windows'')")
      case False
      with assms Exited f show ?thesis by (simp add: tree_probe_unavailable)
    next
      case True
      show ?thesis
      proof (cases "process h (str ''cmd'') (win_tree_args ws)")
        case (Not_started e)
        from assms show ?thesis
          unfolding tree_probe_windows_not_started [OF Exited f True Not_started]
          using Exited f True by (auto simp: reported_failure_def)
      next
        case (Exited wouts werrs wcode)
        from assms show ?thesis
          unfolding tree_probe_windows [OF \<open>process h (str ''tree'') (tree_args ws) = Exited outs errs code\<close> f True Exited]
          using \<open>process h (str ''tree'') (tree_args ws) = Exited outs errs code\<close> f True
          by (auto simp: reported_failure_def)
      qed
    qed
  qed
qed

lemma java_probe_spawn:
  "Spawn c a \<in> set (fst (java_probe h)) \<Longrightarrow> c = str ''java''"
  by (auto simp: java_probe_def fst_bind fst_getCommandOutput emit_def console_log_def
      split: sum.splits if_splits)

lemma extended_inspector_spawn:
  "Spawn c a \<in> set (fst (extended_inspector h ws)) \<Longrightarrow>
   c = str ''java'' \<or> Spawn c a \<in> set (fst (tree_probe h ws))"
  by (auto simp: extended_inspector_def fst_seq emit_def split: sum.splits dest: java_probe_spawn)

lemma run_body_spawn:
  assumes "Spawn c a \<in> set (fst (run_body h))"
  shows "c = str ''git'' \<or> c = str ''lsb_release'' \<or> c = str ''sw_vers'' \<or> c = str ''powershell'' \<or>
         c = str ''java'' \<or>
         Spawn c a \<in> set (fst (tree_probe h (environ h (str ''GITHUB_WORKSPACE''))))"
proof -
  from assms have "Spawn c a \<in> set (fst (always_on_stages h)) \<or>
      Spawn c a \<in> set (fst (extended_inspector h (environ h (str ''GITHUB_WORKSPACE''))))"
    by (auto simp: run_body_split fst_seq return_def split: sum.splits if_splits)
  then show ?thesis
    using always_on_spawn [of "fst (always_on_stages h)" c a] always_on_stages_events [of h]
      extended_inspector_spawn [of c a h "environ h (str ''GITHUB_WORKSPACE'')"]
    by (auto simp: events_satisfy_def)
qed

text \<open>
  C6. In any run, a \<open>cmd\<close> process is started only on a Windows runner whose primary
  \<open>tree\<close> process has run and reported a non-zero exit code or empty output. On a runner
  that is not Windows, a primary listing that reported failure leaves exactly one log
  line, saying that \<open>tree\<close> is unavailable; on Windows, when the fallback reports
  failure too, the probe logs that the Windows listing also failed. A primary listing
  that cannot be started at all is caught inside the probe and logged as an error. In
  every case the probe starts no process other than \<open>tree\<close> and \<open>cmd /c tree\<close>: there
  is no manual recursive listing.
\<close>

theorem windows_tree_fallback_only_after_failure:
  "(\<forall>a. Spawn (str ''cmd'') a \<in> set (run h) \<longrightarrow>
        runner_os h = Some (str ''Windows'') \<and>
        reported_failure
          (process h (str ''tree'') (tree_args (environ h (str ''GITHUB_WORKSPACE''))))) \<and>
   (runner_os h \<noteq> Some (str ''Windows'') \<and>
    reported_failure (process h (str ''tree'') (tree_args ws)) \<longrightarrow>
      tree_probe h ws =
        ([Spawn (str ''tree'') (tree_args ws), ConsoleLog tree_missing_message], Inr ())) \<and>
   (runner_os h = Some (str ''Windows'') \<and>
    reported_failure (process h (str ''tree'') (tree_args ws)) \<and>
    reported_failure (process h (str ''cmd'') (win_tree_args ws)) \<longrightarrow>
      tree_probe h ws =
        ([Spawn (str ''tree'') (tree_args ws), ConsoleLog win_tree_fallback_message,
          Spawn (str ''cmd'') (win_tree_args ws), ConsoleLog win_tree_failed_message], Inr ())) \<and>
   (\<forall>e. process h (str ''tree'') (tree_args ws) = Not_started e \<longrightarrow>
        tree_probe h ws =
          ([Spawn (str ''tree'') (tree_args ws),
            Warning (str ''Tree command execution error: '' @ message e),
            ConsoleLog tree_error_message], Inr ())) \<and>
   (\<forall>c a. Spawn c a \<in> set (fst (tree_probe h ws)) \<longrightarrow>
        (c = str ''tree'' \<and> a = tree_args ws) \<or> (c = str ''cmd'' \<and> a = win_tree_args ws))"
proof (intro conjI allI impI)
  fix a
  assume "Spawn (str ''cmd'') a \<in> set (run h)"
  then have "Spawn (str ''cmd'') a \<in> set (fst (run_body h))"
    by (simp add: spawn_in_run)
  from run_body_spawn [OF this]
  have "Spawn (str ''cmd'') a \<in> set (fst (tree_probe h (environ h (str ''GITHUB_WORKSPACE''))))"
    by simp
  from tree_probe_spawn_cases [OF this]
  show "runner_os h = Some (str ''Windows'')"
    and "reported_failure
          (process h (str ''tree'') (tree_args (environ h (str ''GITHUB_WORKSPACE''))))"
    by simp_all
next
  assume "runner_os h \<noteq> Some (str ''Windows'') \<and>
    reported_failure (process h (str ''tree'') (tree_args ws))"
  then show "tree_probe h ws =
        ([Spawn (str ''tree'') (tree_args ws), ConsoleLog tree_missing_message], Inr ())"
    by (cases "process h (str ''tree'') (tree_args ws)")
       (simp_all add: reported_failure_def tree_probe_unavailable)
next
  assume a: "runner_os h = Some (str ''Windows'') \<and>
    reported_failure (process h (str ''tree'') (tree_args ws)) \<and>
    reported_failure (process h (str ''cmd'') (win_tree_args ws))"
  then obtain outs errs code wouts werrs wcode
    where t: "process h (str ''tree'') (tree_args ws) = Exited outs errs code"
      and tf: "code \<noteq> 0 \<or> trim (concat outs) = []"
      and w: "process h (str ''cmd'') (win_tree_args ws) = Exited wouts werrs wcode"
      and wf: "wcode \<noteq> 0 \<or> trim (concat wouts) = []"
    by (cases "process h (str ''tree'') (tree_args ws)";
        cases "process h (str ''cmd'') (win_tree_args ws)")
       (auto simp: reported_failure_def)
  from a have win: "runner_os h = Some (str ''Windows'')" by simp
  show "tree_probe h ws =
        ([Spawn (str ''tree'') (tree_args ws), ConsoleLog win_tree_fallback_message,
          Spawn (str ''cmd'') (win_tree_args ws), ConsoleLog win_tree_failed_message], Inr ())"
    using wf by (auto simp: tree_probe_windows [OF t tf win w])
next
  fix e
  assume "process h (str ''tree'') (tree_args ws) = Not_started e"
  then show "tree_probe h ws =
          ([Spawn (str ''tree'') (tree_args ws),
            Warning (str ''Tree command execution error: '' @ message e),
            ConsoleLog tree_error_message], Inr ())"
    by (rule tree_probe_not_started)
next
  fix c a
  assume "Spawn c a \<in> set (fst (tree_probe h ws))"
  from tree_probe_spawn_cases [OF this]
  show "(c = str ''tree'' \<and> a = tree_args ws) \<or> (c = str ''cmd'' \<and> a = win_tree_args ws)"
    by blast
qed

lemma windows_host_process:
  "process windows_tree_failing_host c a = Exited [] [str ''Parameter format not correct''] 1"
  by (simp add: windows_tree_failing_host_def base_host_def)

lemma windows_host_env:
  "environ windows_tree_failing_host k =
     (if k = str ''RUNNER_OS'' then Some (str ''Windows'') else None)"
  by (simp add: windows_tree_failing_host_def base_host_def)

lemma windows_host_flag: "showExtendedInfo windows_tree_failing_host"
  by (simp add: showExtendedInfo_def getInput_def raw_input_def windows_tree_failing_host_def
        base_host_def trim_def is_white_space_def str_def)

lemma windows_host_stdout_of: "stdout_of windows_tree_failing_host c a = ([Spawn c a], Inr [])"
  by (simp add: stdout_of_exited [OF windows_host_process] trim_Nil)

lemma windows_host_always_on: "snd (always_on_stages windows_tree_failing_host) = Inr ()"
  by (simp add: always_on_stages_def generate_timestamp_eq bind_returned snd_seq
        platform_inspector_def repository_inspector_def safe_directory_def branch_name_def
        commit_sha_def env_or_def truthy_def runner_os_def windows_details_def
        windows_host_env windows_host_stdout_of
        getCommandOutput_exited [OF windows_host_process] trim_Nil
        seq_def emit_def return_def console_log_def)

lemma windows_host_cmd_spawned:
  "Spawn (str ''cmd'') (win_tree_args None) \<in> set (run windows_tree_failing_host)"
proof -
  have j: "snd (java_probe windows_tree_failing_host) = Inr ()"
    by (rule java_probe_returns [OF windows_host_process])
  have t: "tree_probe windows_tree_failing_host None =
        ([Spawn (str ''tree'') (tree_args None), ConsoleLog win_tree_fallback_message,
          Spawn (str ''cmd'') (win_tree_args None), ConsoleLog win_tree_failed_message], Inr ())"
    by (simp add: tree_probe_windows [OF windows_host_process _ _ windows_host_process]
          runner_os_def windows_host_env)
  have "Spawn (str ''cmd'') (win_tree_args None) \<in>
          set (fst (extended_inspector windows_tree_failing_host None))"
    by (simp add: extended_inspector_def fst_seq j t emit_def)
  then show ?thesis
    by (simp add: spawn_in_run flag_on_events [OF windows_host_flag windows_host_always_on]
          windows_host_env)
qed

theorem windows_tree_fallback_only_after_failure_witness:
  "Spawn (str ''cmd'') (win_tree_args None) \<in> set (run windows_tree_failing_host) \<and>
   runner_os windows_tree_failing_host = Some (str ''Windows'') \<and>
   reported_failure (process windows_tree_failing_host (str ''tree'') (tree_args None)) \<and>
   reported_failure (process windows_tree_failing_host (str ''cmd'') (win_tree_args None)) \<and>
   tree_probe windows_tree_failing_host None =
     ([Spawn (str ''tree'') (tree_args None), ConsoleLog win_tree_fallback_message,
       Spawn (str ''cmd'') (win_tree_args None), ConsoleLog win_tree_failed_message], Inr ()) \<and>
   runner_os linux_tree_failing_host \<noteq> Some (str ''Windows'') \<and>
   reported_failure (process linux_tree_failing_host (str ''tree'') (tree_args None)) \<and>
   tree_probe linux_tree_failing_host None =
     ([Spawn (str ''tree'') (tree_args None), ConsoleLog tree_missing_message], Inr ())"
proof -
  have l: "runner_os linux_tree_failing_host \<noteq> Some (str ''Windows'') \<and>
      reported_failure (process linux_tree_failing_host (str ''tree'') (tree_args None))"
    by (simp add: linux_tree_failing_host_def base_host_def runner_os_def reported_failure_def)
  have w: "runner_os windows_tree_failing_host = Some (str ''Windows'') \<and>
      reported_failure (process windows_tree_failing_host (str ''tree'') (tree_args None)) \<and>
      reported_failure (process windows_tree_failing_host (str ''cmd'') (win_tree_args None))"
    by (simp add: windows_host_process windows_host_env runner_os_def reported_failure_def)
  show ?thesis
    using windows_tree_fallback_only_after_failure [of windows_tree_failing_host None]
      windows_tree_fallback_only_after_failure [of linux_tree_failing_host None]
      windows_host_cmd_spawned l w
    by simp
qed

section \<open>Distribution details from \<open>/etc/os-release\<close>\<close>



















section \<open>Commands that end the run\<close>

lemma lsb_missing_env:
  "environ lsb_missing_host k = (if k = str ''RUNNER_OS'' then Some (str ''Linux'') else None)"
  by (simp add: lsb_missing_host_def base_host_def)

lemma lsb_missing_process:
  "process lsb_missing_host (str ''lsb_release'') a =
     Not_started (JsError (str ''Unable to locate executable file: lsb_release'') [])"
  by (simp add: lsb_missing_host_def base_host_def)

lemma lsb_missing_fs: "fs lsb_missing_host p = None"
  by (simp add: lsb_missing_host_def base_host_def)

lemma lsb_missing_run_body:
  "run_body lsb_missing_host =
     ([StartGroup ([55357, 56658] @ str '' Generating Timestamp''),
       SetOutput (str ''formatted_run_timestamp'') (timestamp (clock lsb_missing_host)),
       ConsoleLog (str ''Generated Timestamp: '' @ timestamp (clock lsb_missing_host)),
       EndGroup,
       StartGroup ([55357, 56741, 65039] @ str '' Operating System Details''),
       ConsoleLog rule40,
       ConsoleLog (str ''  ACTION TIME:    '' @ timestamp (clock lsb_missing_host)),
       ConsoleLog (str ''  KERNEL INFO:    '' @ os_type lsb_missing_host @ str '' '' @
                   os_release lsb_missing_host @ str '' '' @ os_version lsb_missing_host),
       ConsoleLog (str ''  ARCHITECTURE:   '' @ os_arch lsb_missing_host),
       ConsoleLog (str ''  RUNNER OS:      '' @ str ''Linux''),
       ConsoleLog (str ''  HOSTNAME:       '' @ os_hostname lsb_missing_host),
       ConsoleLog (str ''  TOTAL MEMORY:   '' @ total_memory_gb lsb_missing_host @ str '' GB''),
       ConsoleLog (str ''  FREE MEMORY:    '' @ free_memory_gb lsb_missing_host @ str '' GB''),
       Spawn (str ''lsb_release'') [str ''-a'']],
      Inl (JsError (str ''Unable to locate executable file: lsb_release'') []))"
  by (simp add: run_body_def generate_timestamp_eq bind_returned platform_inspector_def
        runner_os_def lsb_missing_env interpolate_def linux_distro_def existsSync_def
        getCommandOutput_not_started [OF lsb_missing_process] bind_thrown seq_def emit_def
        lsb_missing_fs)

lemma linux_distro_tool_failed:
  assumes "fs h (str ''/etc/os-release'') = None"
    and "process h (str ''lsb_release'') [str ''-a''] = Exited outs errs code"
    and "code \<noteq> 0 \<or> trim (concat outs) = []"
  shows "linux_distro h =
     ([Spawn (str ''lsb_release'') [str ''-a''], ConsoleLog (str ''  DISTRO INFO:    '' @ str ''N/A'')],
      Inr ())"
  using assms(1,3)
  by (auto simp: linux_distro_def existsSync_def getCommandOutput_exited [OF assms(2)]
        bind_returned return_def console_log_def emit_def)

text \<open>
  C2. On a Linux runner without \<open>/etc/os-release\<close> on which \<open>lsb_release\<close> cannot be
  located, the promise of \<open>exec.exec\<close> rejects and nothing between the \<open>await\<close> in
  \<open>getCommandOutput\<close> and the outer \<open>catch\<close> of \<open>run\<close> handles it: the run is marked
  failed with the toolkit's message, no distro line is logged, neither \<open>N/A\<close> nor any
  other, and \<open>lsb_release\<close> is the only child process of the run. (When the tool does
  run and reports failure, the line is \<open>N/A\<close>: \<open>linux_distro_tool_failed\<close>.)
\<close>

theorem run_fails_when_lsb_release_is_missing:
  "runner_os lsb_missing_host = Some (str ''Linux'') \<and>
   fs lsb_missing_host (str ''/etc/os-release'') = None \<and>
   process lsb_missing_host (str ''lsb_release'') [str ''-a''] =
     Not_started (JsError (str ''Unable to locate executable file: lsb_release'') []) \<and>
   failure (run lsb_missing_host) =
     Some (str ''Action failed: Unable to locate executable file: lsb_release'' @ [10]) \<and>
   spawned (run lsb_missing_host) = [(str ''lsb_release'', [str ''-a''])] \<and>
   ConsoleLog (str ''  DISTRO INFO:    N/A'') \<notin> set (run lsb_missing_host)"
  by (simp add: run_def lsb_missing_run_body runner_os_def lsb_missing_env lsb_missing_fs
        lsb_missing_process)
     (simp add: str_def rule40_def)

lemma safe_directory_failing_env:
  "environ safe_directory_failing_host k =
     (if k = str ''GITHUB_WORKSPACE'' then Some (str ''/home/runner/work/app'') else None)"
  by (simp add: safe_directory_failing_host_def base_host_def)

lemma safe_directory_failing_process:
  "process safe_directory_failing_host (str ''git'')
     [str ''config'', str ''--global'', str ''--add'', str ''safe.directory'',
      str ''/home/runner/work/app''] =
   Exited [] [str ''error: could not lock config file''] 255"
  by (simp add: safe_directory_failing_host_def base_host_def)

lemma safe_directory_failing_exit_error:
  "exit_error safe_directory_failing_host c a 255 =
     JsError (str ''The process failed with exit code 255'') []"
  by (simp add: safe_directory_failing_host_def base_host_def String_int_def)
     (simp add: digits.simps str_def)

lemma safe_directory_fails:
  "safe_directory safe_directory_failing_host (Some (str ''/home/runner/work/app'')) =
     ([Spawn (str ''git'')
         [str ''config'', str ''--global'', str ''--add'', str ''safe.directory'',
          str ''/home/runner/work/app''],
       EchoCommand (str ''git'')
         [str ''config'', str ''--global'', str ''--add'', str ''safe.directory'',
          str ''/home/runner/work/app''],
       EchoOutput (str ''error: could not lock config file'')],
      Inl (JsError (str ''The process failed with exit code 255'') []))"
  by (simp add: safe_directory_def truthy_def exec_exec_def default_options_def
        safe_directory_failing_process safe_directory_failing_exit_error bind_thrown)
     (simp add: str_def)

lemma safe_directory_failing_run_body:
  "\<exists>es. run_body safe_directory_failing_host =
     (es @ fst (safe_directory safe_directory_failing_host (Some (str ''/home/runner/work/app''))),
      Inl (JsError (str ''The process failed with exit code 255'') [])) \<and>
     spawned es = [] \<and> failure es = None"
  by (simp add: run_body_def generate_timestamp_eq bind_returned platform_inspector_def
        runner_os_def safe_directory_failing_env repository_inspector_def
        safe_directory_fails bind_thrown seq_def emit_def return_def)

lemma str_append: "str a @ str b = str (a @ b)"
  by (simp add: str_def)

lemma spawned_append: "spawned (es @ es') = spawned es @ spawned es'"
  by (induction es rule: spawned.induct) simp_all

lemma failure_append:
  "failure (es @ es') = (case failure es of None \<Rightarrow> failure es' | Some m \<Rightarrow> Some m)"
  by (induction es rule: failure.induct) simp_all

text \<open>
  C1. The safe-directory configuration is the one command started through \<open>exec.exec\<close>
  directly, with the default options, and not through \<open>getCommandOutput\<close>. On a host
  where \<open>GITHUB_WORKSPACE\<close> is set and \<open>git config\<close> exits with code 255, no result
  object comes back: the promise rejects, the run is marked failed, and \<open>git config\<close> is
  the only child process of the run. None of the later queries is attempted, although
  each of them would have exited with code 0.
\<close>

theorem run_fails_when_safe_directory_config_fails:
  "environ safe_directory_failing_host (str ''GITHUB_WORKSPACE'') =
     Some (str ''/home/runner/work/app'') \<and>
   process safe_directory_failing_host (str ''git'')
     [str ''config'', str ''--global'', str ''--add'', str ''safe.directory'',
      str ''/home/runner/work/app''] =
     Exited [] [str ''error: could not lock config file''] 255 \<and>
   process safe_directory_failing_host (str ''git'') [str ''rev-parse'', str ''HEAD''] =
     Exited [str ''ok''] [] 0 \<and>
   failure (run safe_directory_failing_host) =
     Some (str ''Action failed: The process failed with exit code 255'' @ [10]) \<and>
   spawned (run safe_directory_failing_host) =
     [(str ''git'', [str ''config'', str ''--global'', str ''--add'', str ''safe.directory'',
                     str ''/home/runner/work/app''])]"
proof -
  obtain es where b: "run_body safe_directory_failing_host =
     (es @ fst (safe_directory safe_directory_failing_host (Some (str ''/home/runner/work/app''))),
      Inl (JsError (str ''The process failed with exit code 255'') []))"
    and s: "spawned es = []" and f: "failure es = None"
    using safe_directory_failing_run_body by blast
  have p: "process safe_directory_failing_host (str ''git'') [str ''rev-parse'', str ''HEAD''] =
     Exited [str ''ok''] [] 0"
    by (simp add: safe_directory_failing_host_def base_host_def)
  show ?thesis
    using s f p
    by (simp add: run_def b safe_directory_fails spawned_append failure_append
          safe_directory_failing_env safe_directory_failing_process str_append)
qed

section \<open>A run without Java\<close>

lemma java_probe_not_started:
  assumes "process h (str ''java'') [str ''-version''] = Not_started e"
  shows "java_probe h = ([Spawn (str ''java'') [str ''-version'']], Inl e)"
  by (simp add: java_probe_def getCommandOutput_not_started [OF assms] bind_thrown)

lemma extended_inspector_java_not_started:
  assumes "process h (str ''java'') [str ''-version''] = Not_started e"
  shows "extended_inspector h ws =
     ([StartGroup extended_header, ConsoleLog rule54, ConsoleLog (str ''  JAVA DETAILS:''),
       Spawn (str ''java'') [str ''-version'']], Inl e)"
  by (simp add: extended_inspector_def java_probe_not_started [OF assms] seq_def emit_def
        bind_def)

lemma run_java_not_started:
  assumes "showExtendedInfo h" and "snd (always_on_stages h) = Inr ()"
    and "process h (str ''java'') [str ''-version''] = Not_started e"
  shows "run h =
     fst (always_on_stages h) @
     [StartGroup extended_header, ConsoleLog rule54, ConsoleLog (str ''  JAVA DETAILS:''),
      Spawn (str ''java'') [str ''-version''],
      SetFailed (str ''Action failed: '' @ message e @ [10] @ stack e)]"
proof -
  obtain es where a: "always_on_stages h = (es, Inr ())"
    using assms(2) by (cases "always_on_stages h") auto
  show ?thesis
    using assms(1)
    by (simp add: run_def run_body_split a seq_def bind_returned
          extended_inspector_java_not_started [OF assms(3)])
qed

lemma always_on_no_failure: "list_all always_on_event es \<Longrightarrow> failure es = None"
  by (induction es rule: failure.induct) (simp_all add: always_on_event_def)

lemma logged_append: "logged (es @ es') = logged es @ logged es'"
  by (induction es rule: logged.induct) simp_all

lemma java_missing_flag: "showExtendedInfo java_missing_host"
  by (simp add: showExtendedInfo_def getInput_def raw_input_def java_missing_host_def
        base_host_def trim_def is_white_space_def str_def)

lemma java_missing_env:
  "environ java_missing_host k = (if k = str ''RUNNER_OS'' then Some (str ''macOS'') else None)"
  by (simp add: java_missing_host_def base_host_def)

lemma java_missing_process:
  "process java_missing_host c a =
     (if c = str ''java''
      then Not_started (JsError (str ''Unable to locate executable file: java'') [])
      else Exited [] [] 0)"
  by (simp add: java_missing_host_def base_host_def)

lemma java_missing_stdout_of:
  "c \<noteq> str ''java'' \<Longrightarrow> stdout_of java_missing_host c a = ([Spawn c a], Inr [])"
  by (simp add: stdout_of_exited [of java_missing_host c a "[]" "[]" 0] java_missing_process
        trim_Nil)

lemma java_missing_always_on:
  "\<exists>es. always_on_stages java_missing_host = (es, Inr ()) \<and>
        java_not_found_message \<notin> set (logged es)"
  apply (simp add: always_on_stages_def generate_timestamp_eq bind_returned
        platform_inspector_def repository_inspector_def safe_directory_def branch_name_def
        commit_sha_def env_or_def truthy_def runner_os_def macos_version_def
        java_missing_env java_missing_stdout_of
        getCommandOutput_exited [of java_missing_host "str ''sw_vers''" "[]" "[]" "[]" 0]
        java_missing_process trim_Nil interpolate_def or_else_def remove_final_def
        replace_all_def formatBlock_def
        seq_def emit_def return_def console_log_def)
  apply (simp add: java_not_found_message_def arrow_def rule40_def str_def)
  done

text \<open>
  C5. With the flag on and \<open>java\<close> not installed, the version query cannot be started:
  the promise rejects at the \<open>await\<close> of the Java probe, which has no \<open>catch\<close> of its
  own. The query did not succeed, and yet the line saying that Java was not found is
  never logged; the run is marked failed instead.
\<close>

theorem java_missing_run_logs_no_not_found:
  "showExtendedInfo java_missing_host \<and>
   process java_missing_host (str ''java'') [str ''-version''] =
     Not_started (JsError (str ''Unable to locate executable file: java'') []) \<and>
   Spawn (str ''java'') [str ''-version''] \<in> set (run java_missing_host) \<and>
   java_not_found_message \<notin> set (logged (run java_missing_host)) \<and>
   failure (run java_missing_host) =
     Some (str ''Action failed: Unable to locate executable file: java'' @ [10])"
proof -
  have p: "process java_missing_host (str ''java'') [str ''-version''] =
     Not_started (JsError (str ''Unable to locate executable file: java'') [])"
    by (simp add: java_missing_process)
  obtain es where a: "always_on_stages java_missing_host = (es, Inr ())"
    and n: "java_not_found_message \<notin> set (logged es)"
    using java_missing_always_on by blast
  have f: "failure es = None"
    using always_on_stages_events [of java_missing_host]
    by (simp add: a events_satisfy_def always_on_no_failure)
  have m: "java_not_found_message \<noteq> rule54" "java_not_found_message \<noteq> str ''  JAVA DETAILS:''"
    by (simp_all add: java_not_found_message_def rule54_def arrow_def str_def)
  have r: "run java_missing_host =
     es @
     [StartGroup extended_header, ConsoleLog rule54, ConsoleLog (str ''  JAVA DETAILS:''),
      Spawn (str ''java'') [str ''-version''],
      SetFailed (str ''Action failed: '' @
                 message (JsError (str ''Unable to locate executable file: java'') []) @ [10] @
                 stack (JsError (str ''Unable to locate executable file: java'') []))]"
    using run_java_not_started [OF java_missing_flag _ p] by (simp add: a)
  show ?thesis
    using java_missing_flag p n f m
    by (simp add: r logged_append failure_append str_append)
qed

lemma java_missing_windows_flag: "showExtendedInfo java_missing_windows_host"
  by (simp add: showExtendedInfo_def getInput_def raw_input_def java_missing_windows_host_def
        base_host_def trim_def is_white_space_def str_def)

lemma java_missing_windows_env:
  "environ java_missing_windows_host k =
     (if k = str ''RUNNER_OS'' then Some (str ''Windows'') else None)"
  by (simp add: java_missing_windows_host_def base_host_def)

lemma java_missing_windows_process:
  "process java_missing_windows_host c a =
     (if c = str ''java''
      then Not_started (JsError (str ''Unable to locate executable file: java'') [])
      else Exited [str ''ok''] [] 0)"
  by (simp add: java_missing_windows_host_def base_host_def)

lemma trim_ok: "trim (str ''ok'') = str ''ok''"
  by (simp add: trim_def is_white_space_def str_def)

lemma java_missing_windows_stdout_of:
  "c \<noteq> str ''java'' \<Longrightarrow>
   stdout_of java_missing_windows_host c a = ([Spawn c a], Inr (str ''ok''))"
  by (simp add: stdout_of_exited [of java_missing_windows_host c a "[str ''ok'']" "[]" 0]
        java_missing_windows_process trim_ok)

lemma java_missing_windows_always_on:
  "snd (always_on_stages java_missing_windows_host) = Inr ()"
  by (simp add: always_on_stages_def generate_timestamp_eq bind_returned snd_seq
        platform_inspector_def repository_inspector_def safe_directory_def branch_name_def
        commit_sha_def env_or_def truthy_def runner_os_def windows_details_def
        java_missing_windows_env java_missing_windows_stdout_of
        getCommandOutput_exited [of java_missing_windows_host "str ''powershell''" _ "[str ''ok'']" "[]" 0]
        java_missing_windows_process trim_ok
        seq_def emit_def return_def console_log_def)

text \<open>
  C8. With the flag on, on a Windows runner where every other command works and only
  \<open>java\<close> is not installed, the Java probe is attempted and throws; the directory-tree
  probe is never attempted, neither \<open>tree\<close> nor \<open>cmd /c tree\<close>, although \<open>tree\<close> would
  have run, and the run is marked failed.
\<close>

theorem java_missing_run_never_starts_tree:
  "showExtendedInfo java_missing_windows_host \<and>
   runner_os java_missing_windows_host = Some (str ''Windows'') \<and>
   process java_missing_windows_host (str ''java'') [str ''-version''] =
     Not_started (JsError (str ''Unable to locate executable file: java'') []) \<and>
   process java_missing_windows_host (str ''tree'') (tree_args None) = Exited [str ''ok''] [] 0 \<and>
   Spawn (str ''java'') [str ''-version''] \<in> set (run java_missing_windows_host) \<and>
   Spawn (str ''tree'') (tree_args None) \<notin> set (run java_missing_windows_host) \<and>
   Spawn (str ''cmd'') (win_tree_args None) \<notin> set (run java_missing_windows_host) \<and>
   failure (run java_missing_windows_host) =
     Some (str ''Action failed: Unable to locate executable file: java'' @ [10])"
proof -
  have p: "process java_missing_windows_host (str ''java'') [str ''-version''] =
     Not_started (JsError (str ''Unable to locate executable file: java'') [])"
    by (simp add: java_missing_windows_process)
  have t: "process java_missing_windows_host (str ''tree'') (tree_args None) =
     Exited [str ''ok''] [] 0"
    by (simp add: java_missing_windows_process)
  note ev = always_on_stages_events [of java_missing_windows_host, unfolded events_satisfy_def]
  have f: "failure (fst (always_on_stages java_missing_windows_host)) = None"
    using ev by (rule always_on_no_failure)
  have nt: "Spawn (str ''tree'') a \<notin> set (fst (always_on_stages java_missing_windows_host))" for a
    using always_on_spawn [OF ev, of "str ''tree''" a] by auto
  have nc: "Spawn (str ''cmd'') a \<notin> set (fst (always_on_stages java_missing_windows_host))" for a
    using always_on_spawn [OF ev, of "str ''cmd''" a] by auto
  note r = run_java_not_started [OF java_missing_windows_flag java_missing_windows_always_on p]
  show ?thesis
    using java_missing_windows_flag p t f nt nc
    by (simp add: r failure_append str_append runner_os_def java_missing_windows_env)
qed

section \<open>Branch and commit lines of a run\<close>

lemma snd_bind_iff:
  "snd (bind m f) = Inr y \<longleftrightarrow> (\<exists>x. snd m = Inr x \<and> snd (f x) = Inr y)"
  by (cases m) (auto simp: bind_def split: sum.split prod.split)

lemma snd_seq_iff: "snd (seq m k) = Inr y \<longleftrightarrow> snd m = Inr () \<and> snd k = Inr y"
  by (simp add: seq_def snd_bind_iff)

lemma snd_emit: "snd (emit es) = Inr ()"
  by (simp add: emit_def)

lemma fst_stdout_of: "fst (stdout_of h c a) = [Spawn c a]"
  by (simp add: stdout_of_def fst_bind fst_getCommandOutput return_def split: sum.split)

lemma repository_events_branch:
  assumes "snd (safe_directory h ws) = Inr ()"
  shows "set (fst (branch_name h)) \<subseteq> set (fst (repository_inspector h ws))"
proof -
  have "\<exists>tail. fst (repository_inspector h ws) =
      StartGroup ([55356, 57139] @ str '' Git Repository Details'') #
      fst (safe_directory h ws) @
      [ConsoleLog rule40,
       ConsoleLog (str ''  REPOSITORY:       '' @ interpolate (environ h (str ''GITHUB_REPOSITORY'')))] @
      fst (branch_name h) @ tail"
    unfolding repository_inspector_def
    by (simp add: fst_seq fst_bind assms emit_def console_log_def)
  then show ?thesis by auto
qed

lemma repository_events_after_branch:
  assumes "snd (safe_directory h ws) = Inr ()" and "snd (branch_name h) = Inr b"
  shows "ConsoleLog (str ''  BRANCH:           '' @ b) \<in> set (fst (repository_inspector h ws))"
    and "set (fst (commit_sha h)) \<subseteq> set (fst (repository_inspector h ws))"
proof -
  have "\<exists>tail. fst (repository_inspector h ws) =
      StartGroup ([55356, 57139] @ str '' Git Repository Details'') #
      fst (safe_directory h ws) @
      [ConsoleLog rule40,
       ConsoleLog (str ''  REPOSITORY:       '' @ interpolate (environ h (str ''GITHUB_REPOSITORY'')))] @
      fst (branch_name h) @
      [ConsoleLog (str ''  BRANCH:           '' @ b)] @
      fst (commit_sha h) @ tail"
    unfolding repository_inspector_def
    by (simp add: fst_seq fst_bind assms emit_def console_log_def)
  then show "ConsoleLog (str ''  BRANCH:           '' @ b) \<in> set (fst (repository_inspector h ws))"
    and "set (fst (commit_sha h)) \<subseteq> set (fst (repository_inspector h ws))"
    by auto
qed

lemma repository_events_after_sha:
  assumes "snd (safe_directory h ws) = Inr ()" and "snd (branch_name h) = Inr b"
    and "snd (commit_sha h) = Inr s"
  shows "ConsoleLog (str ''  COMMIT SHA:       '' @ s) \<in> set (fst (repository_inspector h ws))"
    and "ConsoleLog (str ''  SHORT SHA:        '' @ short_sha s) \<in> set (fst (repository_inspector h ws))"
proof -
  have "\<exists>tail. fst (repository_inspector h ws) =
      StartGroup ([55356, 57139] @ str '' Git Repository Details'') #
      fst (safe_directory h ws) @
      [ConsoleLog rule40,
       ConsoleLog (str ''  REPOSITORY:       '' @ interpolate (environ h (str ''GITHUB_REPOSITORY'')))] @
      fst (branch_name h) @
      [ConsoleLog (str ''  BRANCH:           '' @ b)] @
      fst (commit_sha h) @
      [ConsoleLog (str ''  COMMIT SHA:       '' @ s),
       ConsoleLog (str ''  SHORT SHA:        '' @ short_sha s)] @ tail"
    unfolding repository_inspector_def
    by (simp add: fst_seq fst_bind assms emit_def console_log_def)
  then show "ConsoleLog (str ''  COMMIT SHA:       '' @ s) \<in> set (fst (repository_inspector h ws))"
    and "ConsoleLog (str ''  SHORT SHA:        '' @ short_sha s) \<in> set (fst (repository_inspector h ws))"
    by auto
qed

lemma repository_in_run:
  assumes "snd (platform_inspector h (timestamp (clock h))) = Inr ()"
  shows "set (fst (repository_inspector h (environ h (str ''GITHUB_WORKSPACE'')))) \<subseteq> set (run h)"
proof -
  have "set (fst (repository_inspector h (environ h (str ''GITHUB_WORKSPACE'')))) \<subseteq>
          set (fst (run_body h))"
    by (auto simp: run_body_def generate_timestamp_eq bind_returned fst_seq assms)
  then show ?thesis
    using run_cases [of h] by auto
qed

lemma exec_exec_env: "exec_exec (h\<lparr>environ := e\<rparr>) = exec_exec h"
  by (intro ext) (simp add: exec_exec_def split: proc_outcome.split)

lemma getCommandOutput_env: "getCommandOutput (h\<lparr>environ := e\<rparr>) = getCommandOutput h"
  by (intro ext) (simp add: getCommandOutput_def exec_exec_env)

lemma stdout_of_env: "stdout_of (h\<lparr>environ := e\<rparr>) = stdout_of h"
  by (intro ext) (simp add: stdout_of_def getCommandOutput_env)

lemma generate_timestamp_env: "generate_timestamp (h\<lparr>environ := e\<rparr>) = generate_timestamp h"
  by (simp add: generate_timestamp_def)

lemma linux_distro_env: "linux_distro (h\<lparr>environ := e\<rparr>) = linux_distro h"
proof -
  have f: "field_value (h\<lparr>environ := e\<rparr>) = field_value h"
    by (intro ext) (simp add: field_value_def split: list.split)
  have d: "distro_from_os_release (h\<lparr>environ := e\<rparr>) = distro_from_os_release h"
    by (intro ext) (simp only: distro_from_os_release_def f)
  have r: "readFileSync (h\<lparr>environ := e\<rparr>) = readFileSync h"
    by (intro ext) (simp add: readFileSync_def split: option.split fs_entry.split)
  show ?thesis
    by (simp add: linux_distro_def existsSync_def r d getCommandOutput_env cong: if_cong)
qed

lemma macos_version_env: "macos_version (h\<lparr>environ := e\<rparr>) = macos_version h"
  by (simp add: macos_version_def getCommandOutput_env)

lemma windows_details_env: "windows_details (h\<lparr>environ := e\<rparr>) = windows_details h"
  by (simp add: windows_details_def getCommandOutput_env)

lemma showExtendedInfo_env: "showExtendedInfo (h\<lparr>environ := e\<rparr>) = showExtendedInfo h"
  by (simp add: showExtendedInfo_def getInput_def raw_input_def)

lemma platform_inspector_env:
  "e (str ''RUNNER_OS'') = environ h (str ''RUNNER_OS'') \<Longrightarrow>
   platform_inspector (h\<lparr>environ := e\<rparr>) ts = platform_inspector h ts"
  by (simp add: platform_inspector_def runner_os_def linux_distro_env macos_version_env
        windows_details_env cong: if_cong)

lemma safe_directory_env: "safe_directory (h\<lparr>environ := e\<rparr>) ws = safe_directory h ws"
  by (simp add: safe_directory_def exec_exec_env cong: if_cong)

lemma repository_inspector_env:
  assumes "e (str ''GITHUB_REPOSITORY'') = environ h (str ''GITHUB_REPOSITORY'')"
    and "branch_name (h\<lparr>environ := e\<rparr>) = branch_name h"
    and "commit_sha (h\<lparr>environ := e\<rparr>) = commit_sha h"
  shows "repository_inspector (h\<lparr>environ := e\<rparr>) ws = repository_inspector h ws"
  unfolding repository_inspector_def assms(2,3)
  by (simp add: assms(1) safe_directory_env stdout_of_env)

lemma java_probe_env:
  "e (str ''JAVA_HOME'') = environ h (str ''JAVA_HOME'') \<Longrightarrow>
   java_probe (h\<lparr>environ := e\<rparr>) = java_probe h"
  by (simp add: java_probe_def getCommandOutput_env cong: if_cong)

lemma tree_probe_env:
  "e (str ''RUNNER_OS'') = environ h (str ''RUNNER_OS'') \<Longrightarrow>
   tree_probe (h\<lparr>environ := e\<rparr>) ws = tree_probe h ws"
  by (simp add: tree_probe_def runner_os_def getCommandOutput_env cong: if_cong)

lemma run_env:
  assumes "e (str ''RUNNER_OS'') = environ h (str ''RUNNER_OS'')"
    and "e (str ''GITHUB_REPOSITORY'') = environ h (str ''GITHUB_REPOSITORY'')"
    and "e (str ''GITHUB_WORKSPACE'') = environ h (str ''GITHUB_WORKSPACE'')"
    and "e (str ''JAVA_HOME'') = environ h (str ''JAVA_HOME'')"
    and "branch_name (h\<lparr>environ := e\<rparr>) = branch_name h"
    and "commit_sha (h\<lparr>environ := e\<rparr>) = commit_sha h"
  shows "run (h\<lparr>environ := e\<rparr>) = run h"
proof -
  have w: "environ (h\<lparr>environ := e\<rparr>) (str ''GITHUB_WORKSPACE'') =
      environ h (str ''GITHUB_WORKSPACE'')"
    by (simp add: assms(3))
  have x: "extended_inspector (h\<lparr>environ := e\<rparr>) ws = extended_inspector h ws" for ws
    unfolding extended_inspector_def java_probe_env [where e=e and h=h, OF assms(4)] tree_probe_env [where e=e and h=h, OF assms(1)]
    by (rule refl)
  have "run_body (h\<lparr>environ := e\<rparr>) = run_body h"
    unfolding run_body_def generate_timestamp_env showExtendedInfo_env w x
      platform_inspector_env [where e=e and h=h, OF assms(1)]
      repository_inspector_env [where e=e and h=h, OF assms(2) assms(5) assms(6)]
    by (rule refl)
  then show ?thesis by (simp add: run_def)
qed

lemma run_empty_ref_name_as_unset:
  assumes "environ h (str ''GITHUB_REF_NAME'') = None"
  shows "run (h\<lparr>environ := (environ h)(str ''GITHUB_REF_NAME'' \<mapsto> [])\<rparr>) = run h"
  using assms
  by (intro run_env)
     (simp_all add: branch_name_def commit_sha_def stdout_of_env env_or_def truthy_def)

lemma run_empty_sha_as_unset:
  assumes "environ h (str ''GITHUB_SHA'') = None"
  shows "run (h\<lparr>environ := (environ h)(str ''GITHUB_SHA'' \<mapsto> [])\<rparr>) = run h"
  using assms
  by (intro run_env)
     (simp_all add: branch_name_def commit_sha_def stdout_of_env env_or_def truthy_def)

lemma run_never_spawns:
  assumes "events_satisfy (\<lambda>e. e \<noteq> Spawn (str ''git'') q) (branch_name h)"
    and "events_satisfy (\<lambda>e. e \<noteq> Spawn (str ''git'') q) (commit_sha h)"
    and "q \<noteq> [str ''log'', str ''-1'', str ''--pretty=format:%an <%ae>'']"
    and "q \<noteq> [str ''log'', str ''-1'', str ''--pretty=format:%ad'',
                str ''--date=format:%Y-%m-%d %H:%M:%S %Z'']"
    and "q \<noteq> [str ''remote'', str ''get-url'', str ''origin'']"
    and "q \<noteq> [str ''tag'', str ''--points-at'', str ''HEAD'']"
    and "q \<noteq> [str ''log'', str ''-1'', str ''--pretty=%B'']"
    and "take 1 q \<noteq> [str ''config'']"
  shows "Spawn (str ''git'') q \<notin> set (run h)"
proof -
  let ?P = "\<lambda>e. e \<noteq> Spawn (str ''git'') q"
  have g: "events_satisfy ?P (generate_timestamp h)"
    unfolding generate_timestamp_def Let_def
    by (intro satisfy_intros) simp_all
  have p: "events_satisfy ?P (platform_inspector h ts)" for ts
    unfolding platform_inspector_def linux_distro_def macos_version_def windows_details_def
      distro_from_os_release_def Let_def
    by (intro satisfy_intros) simp_all
  have c: "[str ''config'', str ''--global'', str ''--add'', str ''safe.directory'', w] \<noteq> q" for w
    using assms(8) by (cases q) auto
  note ne = assms(3-7) [symmetric] c
  have r: "events_satisfy ?P (repository_inspector h ws)" for ws
    unfolding repository_inspector_def safe_directory_def
    by (intro satisfy_intros assms(1,2)) (simp_all add: ne)
  have x: "events_satisfy ?P (extended_inspector h ws)" for ws
    unfolding extended_inspector_def java_probe_def tree_probe_def
    by (intro satisfy_intros) simp_all
  have "events_satisfy ?P (run_body h)"
    unfolding run_body_def
    by (intro satisfy_intros g p r x)
  then have "Spawn (str ''git'') q \<notin> set (fst (run_body h))"
    by (auto simp: events_satisfy_def list_all_iff)
  then show ?thesis by (simp add: spawn_in_run)
qed

lemma no_branch_query_when_set:
  assumes "environ h (str ''GITHUB_REF_NAME'') = Some v" and "v \<noteq> []"
  shows "Spawn (str ''git'') [str ''rev-parse'', str ''--abbrev-ref'', str ''HEAD''] \<notin> set (run h)"
proof (rule run_never_spawns)
  show "events_satisfy (\<lambda>e. e \<noteq> Spawn (str ''git'') [str ''rev-parse'', str ''--abbrev-ref'', str ''HEAD''])
          (branch_name h)"
    by (simp add: branch_name_def env_or_set [OF assms] events_satisfy_def)
  show "events_satisfy (\<lambda>e. e \<noteq> Spawn (str ''git'') [str ''rev-parse'', str ''--abbrev-ref'', str ''HEAD''])
          (commit_sha h)"
    unfolding commit_sha_def by (intro satisfy_intros) simp
qed simp_all

lemma no_sha_query_when_set:
  assumes "environ h (str ''GITHUB_SHA'') = Some v" and "v \<noteq> []"
  shows "Spawn (str ''git'') [str ''rev-parse'', str ''HEAD''] \<notin> set (run h)"
proof (rule run_never_spawns)
  show "events_satisfy (\<lambda>e. e \<noteq> Spawn (str ''git'') [str ''rev-parse'', str ''HEAD''])
          (commit_sha h)"
    by (simp add: commit_sha_def env_or_set [OF assms] events_satisfy_def)
  show "events_satisfy (\<lambda>e. e \<noteq> Spawn (str ''git'') [str ''rev-parse'', str ''HEAD''])
          (branch_name h)"
    unfolding branch_name_def by (intro satisfy_intros) simp
qed simp_all

lemma branch_query_in_run:
  assumes "reaches_branch_line h"
    and "environ h (str ''GITHUB_REF_NAME'') = None \<or> environ h (str ''GITHUB_REF_NAME'') = Some []"
  shows "Spawn (str ''git'') [str ''rev-parse'', str ''--abbrev-ref'', str ''HEAD''] \<in> set (run h)"
    and "process h (str ''git'') [str ''rev-parse'', str ''--abbrev-ref'', str ''HEAD''] =
           Exited outs errs code \<Longrightarrow>
         ConsoleLog (str ''  BRANCH:           '' @ trim (concat outs)) \<in> set (run h)"
proof -
  let ?ws = "environ h (str ''GITHUB_WORKSPACE'')"
  from assms(1) have p: "snd (platform_inspector h (timestamp (clock h))) = Inr ()"
    and sd: "snd (safe_directory h ?ws) = Inr ()"
    by (simp_all add: reaches_branch_line_def)
  note sub = repository_in_run [OF p]
  from assms(2) have bn: "branch_name h =
      stdout_of h (str ''git'') [str ''rev-parse'', str ''--abbrev-ref'', str ''HEAD'']"
    by (simp add: branch_name_def env_or_unset)
  have "Spawn (str ''git'') [str ''rev-parse'', str ''--abbrev-ref'', str ''HEAD'']
          \<in> set (fst (branch_name h))"
    by (simp add: bn fst_stdout_of)
  then have "Spawn (str ''git'') [str ''rev-parse'', str ''--abbrev-ref'', str ''HEAD'']
          \<in> set (fst (repository_inspector h ?ws))"
    using repository_events_branch [OF sd] by (rule rev_subsetD)
  then show "Spawn (str ''git'') [str ''rev-parse'', str ''--abbrev-ref'', str ''HEAD''] \<in> set (run h)"
    using sub by (rule rev_subsetD)
  assume "process h (str ''git'') [str ''rev-parse'', str ''--abbrev-ref'', str ''HEAD''] =
           Exited outs errs code"
  then have "snd (branch_name h) = Inr (trim (concat outs))"
    by (simp add: bn stdout_of_exited)
  from repository_events_after_branch(1) [OF sd this]
  show "ConsoleLog (str ''  BRANCH:           '' @ trim (concat outs)) \<in> set (run h)"
    using sub by (rule rev_subsetD)
qed

lemma branch_value_in_run:
  assumes "reaches_branch_line h"
    and "environ h (str ''GITHUB_REF_NAME'') = Some v" and "v \<noteq> []"
  shows "ConsoleLog (str ''  BRANCH:           '' @ v) \<in> set (run h)"
proof -
  let ?ws = "environ h (str ''GITHUB_WORKSPACE'')"
  from assms(1) have p: "snd (platform_inspector h (timestamp (clock h))) = Inr ()"
    and sd: "snd (safe_directory h ?ws) = Inr ()"
    by (simp_all add: reaches_branch_line_def)
  have "snd (branch_name h) = Inr v"
    by (simp add: branch_name_def env_or_set [OF assms(2,3)])
  from repository_events_after_branch(1) [OF sd this]
  show ?thesis
    using repository_in_run [OF p] by (rule rev_subsetD)
qed

lemma sha_query_in_run:
  assumes "reaches_sha_line h"
    and "environ h (str ''GITHUB_SHA'') = None \<or> environ h (str ''GITHUB_SHA'') = Some []"
  shows "Spawn (str ''git'') [str ''rev-parse'', str ''HEAD''] \<in> set (run h)"
    and "process h (str ''git'') [str ''rev-parse'', str ''HEAD''] = Exited outs errs code \<Longrightarrow>
         ConsoleLog (str ''  COMMIT SHA:       '' @ trim (concat outs)) \<in> set (run h) \<and>
         ConsoleLog (str ''  SHORT SHA:        '' @ take 7 (trim (concat outs))) \<in> set (run h)"
proof -
  let ?ws = "environ h (str ''GITHUB_WORKSPACE'')"
  from assms(1) obtain b where p: "snd (platform_inspector h (timestamp (clock h))) = Inr ()"
    and sd: "snd (safe_directory h ?ws) = Inr ()"
    and b: "snd (branch_name h) = Inr b"
    by (auto simp: reaches_sha_line_def reaches_branch_line_def split: sum.splits)
  note sub = repository_in_run [OF p]
  from assms(2) have cs: "commit_sha h = stdout_of h (str ''git'') [str ''rev-parse'', str ''HEAD'']"
    by (simp add: commit_sha_def env_or_unset)
  have "Spawn (str ''git'') [str ''rev-parse'', str ''HEAD''] \<in> set (fst (commit_sha h))"
    by (simp add: cs fst_stdout_of)
  then have "Spawn (str ''git'') [str ''rev-parse'', str ''HEAD'']
          \<in> set (fst (repository_inspector h ?ws))"
    using repository_events_after_branch(2) [OF sd b] by (rule rev_subsetD)
  then show "Spawn (str ''git'') [str ''rev-parse'', str ''HEAD''] \<in> set (run h)"
    using sub by (rule rev_subsetD)
  assume "process h (str ''git'') [str ''rev-parse'', str ''HEAD''] = Exited outs errs code"
  then have s: "snd (commit_sha h) = Inr (trim (concat outs))"
    by (simp add: cs stdout_of_exited)
  from repository_events_after_sha [OF sd b s] sub
  show "ConsoleLog (str ''  COMMIT SHA:       '' @ trim (concat outs)) \<in> set (run h) \<and>
         ConsoleLog (str ''  SHORT SHA:        '' @ take 7 (trim (concat outs))) \<in> set (run h)"
    by (auto simp: short_sha_take)
qed

lemma sha_value_in_run:
  assumes "reaches_sha_line h"
    and "environ h (str ''GITHUB_SHA'') = Some v" and "v \<noteq> []"
  shows "ConsoleLog (str ''  COMMIT SHA:       '' @ v) \<in> set (run h) \<and>
         ConsoleLog (str ''  SHORT SHA:        '' @ take 7 v) \<in> set (run h)"
proof -
  let ?ws = "environ h (str ''GITHUB_WORKSPACE'')"
  from assms(1) obtain b where p: "snd (platform_inspector h (timestamp (clock h))) = Inr ()"
    and sd: "snd (safe_directory h ?ws) = Inr ()"
    and b: "snd (branch_name h) = Inr b"
    by (auto simp: reaches_sha_line_def reaches_branch_line_def split: sum.splits)
  have s: "snd (commit_sha h) = Inr v"
    by (simp add: commit_sha_def env_or_set [OF assms(2,3)])
  from repository_events_after_sha [OF sd b s] repository_in_run [OF p]
  show ?thesis by (auto simp: short_sha_take)
qed

text \<open>
  C10. For the branch name and for the commit SHA alike:
  \<^item> setting a variable that is unset to the empty string changes nothing in the whole
    run, so the two are treated identically;
  \<^item> once the run reaches the line, an unset or empty variable means that the
    \<open>git rev-parse\<close> query is started, and when that process runs to an exit the line of
    the log shows its trimmed standard output;
  \<^item> a variable holding a non-empty string means that no run ever starts that query,
    and once the run reaches the line the log shows the variable's value as it is;
  \<^item> the short SHA line shows the first seven code units of the SHA, or all of it when
    it is shorter; \<open>short_sha\<close> is defined on every string, the empty one included, and
    its length is the smaller of 7 and the SHA's length.
\<close>

theorem env_value_or_rev_parse_in_run:
  "(environ h (str ''GITHUB_REF_NAME'') = None \<longrightarrow>
      run (h\<lparr>environ := (environ h)(str ''GITHUB_REF_NAME'' \<mapsto> [])\<rparr>) = run h) \<and>
   (environ h (str ''GITHUB_SHA'') = None \<longrightarrow>
      run (h\<lparr>environ := (environ h)(str ''GITHUB_SHA'' \<mapsto> [])\<rparr>) = run h) \<and>
   (reaches_branch_line h \<and>
    (environ h (str ''GITHUB_REF_NAME'') = None \<or> environ h (str ''GITHUB_REF_NAME'') = Some []) \<longrightarrow>
      Spawn (str ''git'') [str ''rev-parse'', str ''--abbrev-ref'', str ''HEAD''] \<in> set (run h) \<and>
      (\<forall>outs errs code.
         process h (str ''git'') [str ''rev-parse'', str ''--abbrev-ref'', str ''HEAD''] =
           Exited outs errs code \<longrightarrow>
         ConsoleLog (str ''  BRANCH:           '' @ trim (concat outs)) \<in> set (run h))) \<and>
   (reaches_sha_line h \<and>
    (environ h (str ''GITHUB_SHA'') = None \<or> environ h (str ''GITHUB_SHA'') = Some []) \<longrightarrow>
      Spawn (str ''git'') [str ''rev-parse'', str ''HEAD''] \<in> set (run h) \<and>
      (\<forall>outs errs code.
         process h (str ''git'') [str ''rev-parse'', str ''HEAD''] = Exited outs errs code \<longrightarrow>
         ConsoleLog (str ''  COMMIT SHA:       '' @ trim (concat outs)) \<in> set (run h) \<and>
         ConsoleLog (str ''  SHORT SHA:        '' @ take 7 (trim (concat outs))) \<in> set (run h))) \<and>
   (\<forall>v. environ h (str ''GITHUB_REF_NAME'') = Some v \<and> v \<noteq> [] \<longrightarrow>
      Spawn (str ''git'') [str ''rev-parse'', str ''--abbrev-ref'', str ''HEAD''] \<notin> set (run h) \<and>
      (reaches_branch_line h \<longrightarrow>
         ConsoleLog (str ''  BRANCH:           '' @ v) \<in> set (run h))) \<and>
   (\<forall>v. environ h (str ''GITHUB_SHA'') = Some v \<and> v \<noteq> [] \<longrightarrow>
      Spawn (str ''git'') [str ''rev-parse'', str ''HEAD''] \<notin> set (run h) \<and>
      (reaches_sha_line h \<longrightarrow>
         ConsoleLog (str ''  COMMIT SHA:       '' @ v) \<in> set (run h) \<and>
         ConsoleLog (str ''  SHORT SHA:        '' @ take 7 v) \<in> set (run h))) \<and>
   short_sha sha = take 7 sha \<and> length (short_sha sha) = min 7 (length sha) \<and> short_sha [] = []"
proof (intro conjI impI allI)
  assume "environ h (str ''GITHUB_REF_NAME'') = None"
  then show "run (h\<lparr>environ := (environ h)(str ''GITHUB_REF_NAME'' \<mapsto> [])\<rparr>) = run h"
    by (rule run_empty_ref_name_as_unset)
next
  assume "environ h (str ''GITHUB_SHA'') = None"
  then show "run (h\<lparr>environ := (environ h)(str ''GITHUB_SHA'' \<mapsto> [])\<rparr>) = run h"
    by (rule run_empty_sha_as_unset)
next
  assume a: "reaches_branch_line h \<and>
    (environ h (str ''GITHUB_REF_NAME'') = None \<or> environ h (str ''GITHUB_REF_NAME'') = Some [])"
  then show "Spawn (str ''git'') [str ''rev-parse'', str ''--abbrev-ref'', str ''HEAD''] \<in> set (run h)"
    by (intro branch_query_in_run(1)) simp_all
  fix outs errs code
  assume "process h (str ''git'') [str ''rev-parse'', str ''--abbrev-ref'', str ''HEAD''] =
           Exited outs errs code"
  with a show "ConsoleLog (str ''  BRANCH:           '' @ trim (concat outs)) \<in> set (run h)"
    by (intro branch_query_in_run(2) [where errs = errs and code = code]) simp_all
next
  assume a: "reaches_sha_line h \<and>
    (environ h (str ''GITHUB_SHA'') = None \<or> environ h (str ''GITHUB_SHA'') = Some [])"
  then show "Spawn (str ''git'') [str ''rev-parse'', str ''HEAD''] \<in> set (run h)"
    by (intro sha_query_in_run(1)) simp_all
  fix outs errs code
  assume "process h (str ''git'') [str ''rev-parse'', str ''HEAD''] = Exited outs errs code"
  with a sha_query_in_run(2) [of h outs errs code]
  show "ConsoleLog (str ''  COMMIT SHA:       '' @ trim (concat outs)) \<in> set (run h)"
    and "ConsoleLog (str ''  SHORT SHA:        '' @ take 7 (trim (concat outs))) \<in> set (run h)"
    by simp_all
next
  fix v
  assume a: "environ h (str ''GITHUB_REF_NAME'') = Some v \<and> v \<noteq> []"
  then show "Spawn (str ''git'') [str ''rev-parse'', str ''--abbrev-ref'', str ''HEAD''] \<notin> set (run h)"
    by (simp add: no_branch_query_when_set)
  assume "reaches_branch_line h"
  with a show "ConsoleLog (str ''  BRANCH:           '' @ v) \<in> set (run h)"
    by (simp add: branch_value_in_run)
next
  fix v
  assume a: "environ h (str ''GITHUB_SHA'') = Some v \<and> v \<noteq> []"
  then show "Spawn (str ''git'') [str ''rev-parse'', str ''HEAD''] \<notin> set (run h)"
    by (simp add: no_sha_query_when_set)
  assume "reaches_sha_line h"
  with a sha_value_in_run [of h v]
  show "ConsoleLog (str ''  COMMIT SHA:       '' @ v) \<in> set (run h)"
    and "ConsoleLog (str ''  SHORT SHA:        '' @ take 7 v) \<in> set (run h)"
    by simp_all
qed (simp_all add: short_sha_take)

lemma empty_ref_host_env:
  "environ empty_ref_host k =
     (if k = str ''GITHUB_SHA'' then Some (str ''0123456789abcdef'')
      else if k = str ''GITHUB_REF_NAME'' then Some [] else None)"
  by (simp add: empty_ref_host_def base_host_def)

lemma empty_ref_host_process:
  "process empty_ref_host c a = Exited [str ''main'' @ [10]] [] 0"
  by (simp add: empty_ref_host_def base_host_def)

lemma trim_main: "trim (str ''main'' @ [10]) = str ''main''"
  by (simp add: trim_def is_white_space_def str_def)

lemma empty_ref_host_stdout_of:
  "stdout_of empty_ref_host c a = ([Spawn c a], Inr (str ''main''))"
  by (simp add: stdout_of_exited [OF empty_ref_host_process] trim_main)

lemma empty_ref_host_reaches: "reaches_branch_line empty_ref_host \<and> reaches_sha_line empty_ref_host"
  by (simp add: reaches_sha_line_def reaches_branch_line_def platform_inspector_def
        safe_directory_def branch_name_def env_or_def truthy_def runner_os_def
        empty_ref_host_env empty_ref_host_stdout_of snd_seq_iff snd_emit return_def)

theorem env_value_or_rev_parse_in_run_witness:
  "environ base_host (str ''GITHUB_REF_NAME'') = None \<and>
   run (base_host\<lparr>environ := (environ base_host)(str ''GITHUB_REF_NAME'' \<mapsto> [])\<rparr>) = run base_host \<and>
   reaches_branch_line empty_ref_host \<and> reaches_sha_line empty_ref_host \<and>
   environ empty_ref_host (str ''GITHUB_REF_NAME'') = Some [] \<and>
   process empty_ref_host (str ''git'') [str ''rev-parse'', str ''--abbrev-ref'', str ''HEAD''] =
     Exited [str ''main'' @ [10]] [] 0 \<and>
   Spawn (str ''git'') [str ''rev-parse'', str ''--abbrev-ref'', str ''HEAD''] \<in> set (run empty_ref_host) \<and>
   ConsoleLog (str ''  BRANCH:           main'') \<in> set (run empty_ref_host) \<and>
   environ empty_ref_host (str ''GITHUB_SHA'') = Some (str ''0123456789abcdef'') \<and>
   Spawn (str ''git'') [str ''rev-parse'', str ''HEAD''] \<notin> set (run empty_ref_host) \<and>
   ConsoleLog (str ''  COMMIT SHA:       0123456789abcdef'') \<in> set (run empty_ref_host) \<and>
   ConsoleLog (str ''  SHORT SHA:        0123456'') \<in> set (run empty_ref_host)"
proof -
  have n: "environ base_host (str ''GITHUB_REF_NAME'') = None"
    by (simp add: base_host_def)
  have r: "environ empty_ref_host (str ''GITHUB_REF_NAME'') = Some []"
    and s: "environ empty_ref_host (str ''GITHUB_SHA'') = Some (str ''0123456789abcdef'')"
    by (simp_all add: empty_ref_host_env)
  have ne: "str ''0123456789abcdef'' \<noteq> []"
    by (simp add: str_def)
  have t: "str ''  BRANCH:           '' @ str ''main'' = str ''  BRANCH:           main''"
    "str ''  COMMIT SHA:       '' @ str ''0123456789abcdef'' =
       str ''  COMMIT SHA:       0123456789abcdef''"
    "str ''  SHORT SHA:        '' @ take 7 (str ''0123456789abcdef'') =
       str ''  SHORT SHA:        0123456''"
    by (simp_all add: str_def)
  note w = env_value_or_rev_parse_in_run [of empty_ref_host "[]"]
  note p = empty_ref_host_process [of "str ''git''" "[str ''rev-parse'', str ''--abbrev-ref'', str ''HEAD'']"]
  from w empty_ref_host_reaches r p
  have b: "Spawn (str ''git'') [str ''rev-parse'', str ''--abbrev-ref'', str ''HEAD'']
             \<in> set (run empty_ref_host) \<and>
           ConsoleLog (str ''  BRANCH:           '' @ trim (concat [str ''main'' @ [10]]))
             \<in> set (run empty_ref_host)"
    by blast
  from w s ne empty_ref_host_reaches
  have c: "Spawn (str ''git'') [str ''rev-parse'', str ''HEAD''] \<notin> set (run empty_ref_host) \<and>
      ConsoleLog (str ''  COMMIT SHA:       '' @ str ''0123456789abcdef'') \<in> set (run empty_ref_host) \<and>
      ConsoleLog (str ''  SHORT SHA:        '' @ take 7 (str ''0123456789abcdef''))
        \<in> set (run empty_ref_host)"
    by blast
  from env_value_or_rev_parse_in_run [of base_host "[]"] n
  have e: "run (base_host\<lparr>environ := (environ base_host)(str ''GITHUB_REF_NAME'' \<mapsto> [])\<rparr>) =
      run base_host"
    by blast
  from b have b': "Spawn (str ''git'') [str ''rev-parse'', str ''--abbrev-ref'', str ''HEAD'']
             \<in> set (run empty_ref_host) \<and>
           ConsoleLog (str ''  BRANCH:           main'') \<in> set (run empty_ref_host)"
    by (simp add: trim_main t)
  show ?thesis
    using n e empty_ref_host_reaches r p b' s c
    unfolding t by (intro conjI) simp_all
qed

end
